theory Spec2Isabelle
  imports Main "HOL-Library.Word"
begin

section \<open>Data model\<close>

text \<open>
  The bridge reads blocks of the data-availability (DA) chain and extracts the settlement
  (edge) blocks embedded in them. The types below follow the Go types the source uses:
  \<open>avail_types.SignedBlock\<close> with its extrinsics, \<open>avail.Blob\<close> and \<open>types.Block\<close>.
  Nested structs that the source only reads through one path
  (\<open>extrinsic.Signature.AppID\<close>, \<open>extrinsic.Method.CallIndex\<close>, \<open>extrinsic.Method.Args\<close>,
  \<open>blk.Block.Header.Number\<close>, \<open>blk.Block.Extrinsics\<close>) are flattened to one record.
\<close>

type_synonym bytes = "8 word list"

text \<open>
  A Go \<open>error\<close> value: the package-level sentinel \<open>ErrNoExtrinsicFound\<close> of
  \<open>pkg/block\<close>, or any other error, identified by its message.
\<close>

datatype error = ErrNoExtrinsicFound | Err string

text \<open>\<open>avail_types.CallIndex\<close>: a section index and a method index, one byte each.\<close>

datatype CallIndex = CallIndex (SectionIndex: "8 word") (MethodIndex: "8 word")

text \<open>
  An extrinsic of a DA block. \<open>AppID\<close> is a \<open>UCompact\<close>, an unbounded integer;
  the source compares application identifiers through \<open>Int64()\<close>.
\<close>

record Extrinsic =
  AppID :: int
  MethodCallIndex :: CallIndex
  Args :: bytes

record SignedBlock =
  BlockNumber :: "32 word"
  Extrinsics :: "Extrinsic list"

record Blob =
  Data :: bytes

record Header =
  Number :: "64 word"
  Hash :: bytes
  ParentHash :: bytes

record Block =
  Header :: Header
  Transactions :: "bytes list"

text \<open>
  \<open>big.Int.Int64\<close>: the low 64 bits of the absolute value, negated for a negative
  number; in two's complement that is the number modulo \<open>2 ^ 64\<close>.
\<close>

definition Int64 :: "int \<Rightarrow> 64 word" where
  "Int64 x = (if x < 0 then - word_of_int (- x) else word_of_int x)"

text \<open>
  The three decoders \<open>FromAvail\<close> calls live outside the source files at hand
  (\<open>codec.Decode\<close> into \<open>avail_types.Bytes\<close>, \<open>Blob.Decode\<close> over a SCALE decoder
  and \<open>types.Block.UnmarshalRLP\<close>). They are parameters of the model: any functions
  from bytes to an error or a value.
\<close>

record decoders =
  codec_Decode :: "bytes \<Rightarrow> error + bytes"
  Blob_Decode :: "bytes \<Rightarrow> error + Blob"
  UnmarshalRLP :: "bytes \<Rightarrow> error + Block"

section \<open>Block codec: \<open>FromAvail\<close>\<close>

text \<open>
  \<open>FromAvail\<close> (src/pkg/block/block.go) returns the Go pair \<open>([]*types.Block, error)\<close>.
  A slice result is \<open>None\<close> for \<open>nil\<close> and \<open>Some xs\<close> otherwise; the error is
  \<open>None\<close> for \<open>nil\<close>. The loop over the extrinsics carries \<open>toReturn\<close>. The logger
  calls of \<open>FromAvail\<close> do not influence what it returns and are left out.
\<close>

fun FromAvail_loop ::
  "decoders \<Rightarrow> int \<Rightarrow> CallIndex \<Rightarrow> Extrinsic list \<Rightarrow> Block list
    \<Rightarrow> Block list option \<times> error option" where
  "FromAvail_loop D appID callIdx [] toReturn =
     (if length toReturn = 0 then (None, Some ErrNoExtrinsicFound)
      else (Some toReturn, None))"
| "FromAvail_loop D appID callIdx (extrinsic # rest) toReturn =
     (if Int64 (AppID extrinsic) \<noteq> Int64 appID then
        FromAvail_loop D appID callIdx rest toReturn
      else if MethodCallIndex extrinsic \<noteq> callIdx then
        FromAvail_loop D appID callIdx rest toReturn
      else
        (case codec_Decode D (Args extrinsic) of
           Inl err \<Rightarrow> FromAvail_loop D appID callIdx rest toReturn
         | Inr bs \<Rightarrow>
             (case Blob_Decode D bs of
                Inl err \<Rightarrow> FromAvail_loop D appID callIdx rest toReturn
              | Inr blob \<Rightarrow>
                  (case UnmarshalRLP D (Data blob) of
                     Inl err \<Rightarrow> (None, Some err)
                   | Inr blk \<Rightarrow>
                       FromAvail_loop D appID callIdx rest (toReturn @ [blk])))))"

definition FromAvail ::
  "decoders \<Rightarrow> SignedBlock \<Rightarrow> int \<Rightarrow> CallIndex \<Rightarrow> Block list option \<times> error option" where
  "FromAvail D avail_blk appID callIdx =
     FromAvail_loop D appID callIdx (Extrinsics avail_blk) []"

text \<open>
  The stages of one extrinsic, named for the statements below. An extrinsic matches the
  target when it passes both guards at the head of the loop body; its outer decode is the
  bytes stage followed by the Blob stage.
\<close>

definition matches_target :: "int \<Rightarrow> CallIndex \<Rightarrow> Extrinsic \<Rightarrow> bool" where
  "matches_target appID callIdx extrinsic \<longleftrightarrow>
     Int64 (AppID extrinsic) = Int64 appID \<and> MethodCallIndex extrinsic = callIdx"

definition outer_decode :: "decoders \<Rightarrow> Extrinsic \<Rightarrow> Blob option" where
  "outer_decode D extrinsic =
     (case codec_Decode D (Args extrinsic) of
        Inl err \<Rightarrow> None
      | Inr bs \<Rightarrow> (case Blob_Decode D bs of Inl err \<Rightarrow> None | Inr blob \<Rightarrow> Some blob))"

text \<open>
  What one extrinsic contributes: nothing when it is skipped (\<open>None\<close>), the decode error of
  its settlement-block payload, or the settlement block.
\<close>

definition extrinsic_yield :: "decoders \<Rightarrow> int \<Rightarrow> CallIndex \<Rightarrow> Extrinsic \<Rightarrow> (error + Block) option" where
  "extrinsic_yield D appID callIdx extrinsic =
     (if matches_target appID callIdx extrinsic then
        (case outer_decode D extrinsic of
           None \<Rightarrow> None
         | Some blob \<Rightarrow> Some (UnmarshalRLP D (Data blob)))
      else None)"

definition decoded_block :: "decoders \<Rightarrow> int \<Rightarrow> CallIndex \<Rightarrow> Extrinsic \<Rightarrow> Block option" where
  "decoded_block D appID callIdx extrinsic =
     (case extrinsic_yield D appID callIdx extrinsic of Some (Inr blk) \<Rightarrow> Some blk | _ \<Rightarrow> None)"

definition payload_error :: "decoders \<Rightarrow> int \<Rightarrow> CallIndex \<Rightarrow> Extrinsic \<Rightarrow> error option" where
  "payload_error D appID callIdx extrinsic =
     (case extrinsic_yield D appID callIdx extrinsic of Some (Inl err) \<Rightarrow> Some err | _ \<Rightarrow> None)"

section \<open>Node state, collaborators and the trace of external calls\<close>

text \<open>
  \<open>MechanismType\<close> is a Go string type with three named constants; any other string is
  a value of the type too. \<open>String()\<close> on it is the identity, so a mechanism stands for
  its own string where the source passes \<open>d.nodeType.String()\<close>.
\<close>

datatype MechanismType = BootstrapSequencer | Sequencer | WatchTower | OtherMechanism string

text \<open>
  \<open>staking.NodeType\<close>: the two constants \<open>staking.Sequencer\<close> and
  \<open>staking.WatchTower\<close>, and the conversion \<open>staking.NodeType(d.nodeType)\<close> of a
  mechanism. The string values of the constants are not in the source files at hand, so
  the conversion is kept apart from them.
\<close>

datatype NodeType = staking_Sequencer | staking_WatchTower | NodeType_of MechanismType

type_synonym Transaction = bytes

text \<open>The block builder of \<open>pkg/block\<close>, as far as \<open>stakeParticipant\<close> drives it.\<close>

record BlockBuilder =
  coinbase :: bytes
  signKeyOf :: bytes
  transactions :: "Transaction list"

datatype level = Debug | Info | Warn | Error

text \<open>
  What the \<open>select\<close> of the syncer's main loop receives: the next DA block of the
  stream, or the shutdown signal on \<open>closeCh\<close>.
\<close>

datatype select = Recv SignedBlock | CloseCh

text \<open>
  Every call that leaves the modelled code is recorded, with its arguments and its answer,
  in a trace, in the order the calls are made.
\<close>

datatype event =
    Log level string
  | Slept nat
  | SearchBlock_called int "64 word" "error + SignedBlock"
  | GetLatestHeader_called "error + 32 word"
  | FindCallIndex_called "error + CallIndex"
  | BlockStream_opened "64 word"
  | BlockStream_closed
  | UnStake_called "error option"
  | IsFraudProofBlock_called Block bool
  | Check_called Block "error option"
  | WriteBlock_called Block MechanismType "error option"
  | InProbation_called bool "error option"
  | Contains_called NodeType bool "error option"
  | AddTx_called Transaction "error option"
  | Build_called BlockBuilder "error + Block"
  | SendAndWaitForStatus_called Block "error option"

type_synonym SearchFunc = "SignedBlock \<Rightarrow> 64 word \<Rightarrow> CallIndex \<Rightarrow> int \<times> bool \<times> error option"

text \<open>
  The node \<open>d *Avail\<close>: its configuration and its collaborators. The collaborators (local
  chain, DA client, staking node, fraud resolver, validator, participants querier, network,
  transaction pool, signing helpers) are outside the source files at hand. Each is a
  function of the state \<open>'s\<close> of the world outside the modelled code; a call that can
  change that world returns the new one. \<open>network\<close> is \<open>None\<close> when \<open>d.network\<close> is
  \<open>nil\<close>, and otherwise answers \<open>GetBootnodeConnCount\<close>. \<open>time_Sleep\<close> is what
  happens to the world while the task sleeps. A DA header is its number.
  \<open>BlockStream\<close> gives what the \<open>select\<close> of the main loop will receive, in order;
  when that is used up the \<open>select\<close> waits forever.
\<close>

record 's Avail =
  nodeType :: MechanismType
  availAppID :: int
  minerAddr :: bytes
  signKey :: bytes
  ETH :: int
  codecs :: decoders
  blockchain_Header :: "'s \<Rightarrow> Header"
  blockchain_WriteBlock :: "'s \<Rightarrow> Block \<Rightarrow> MechanismType \<Rightarrow> error option \<times> 's"
  availClient_SearchBlock ::
    "'s \<Rightarrow> int \<Rightarrow> 64 word \<Rightarrow> SearchFunc \<Rightarrow> (error + SignedBlock) \<times> 's"
  availClient_GetLatestHeader :: "'s \<Rightarrow> (error + 32 word) \<times> 's"
  avail_FindCallIndex :: "'s \<Rightarrow> (error + CallIndex) \<times> 's"
  availClient_BlockStream :: "'s \<Rightarrow> 64 word \<Rightarrow> select list"
  stakingNode_UnStake :: "'s \<Rightarrow> bytes \<Rightarrow> error option \<times> 's"
  fraudResolver_IsFraudProofBlock :: "'s \<Rightarrow> Block \<Rightarrow> bool \<times> 's"
  validator_Check :: "'s \<Rightarrow> Block \<Rightarrow> error option \<times> 's"
  querier_InProbation :: "'s \<Rightarrow> bytes \<Rightarrow> (bool \<times> error option) \<times> 's"
  querier_Contains :: "'s \<Rightarrow> bytes \<Rightarrow> NodeType \<Rightarrow> (bool \<times> error option) \<times> 's"
  network :: "('s \<Rightarrow> int) option"
  time_Sleep :: "nat \<Rightarrow> 's \<Rightarrow> 's"
  FromBlockchainHead :: "'s \<Rightarrow> error + BlockBuilder"
  Build :: "'s \<Rightarrow> BlockBuilder \<Rightarrow> (error + Block) \<times> 's"
  staking_StakeTx :: "bytes \<Rightarrow> int \<Rightarrow> MechanismType \<Rightarrow> nat \<Rightarrow> error + Transaction"
  txSigner_SignTx :: "Transaction \<Rightarrow> bytes \<Rightarrow> error + Transaction"
  txpool_AddTx :: "'s \<Rightarrow> Transaction \<Rightarrow> error option \<times> 's"
  availSender_SendAndWaitForStatus :: "'s \<Rightarrow> Block \<Rightarrow> error option \<times> 's"

record 's state =
  world :: 's
  trace :: "event list"

definition emit :: "event \<Rightarrow> 's state \<Rightarrow> 's state" where
  "emit e st = st\<lparr>trace := trace st @ [e]\<rparr>"

definition logger :: "level \<Rightarrow> string \<Rightarrow> 's state \<Rightarrow> 's state" where
  "logger lvl msg st = emit (Log lvl msg) st"

definition sleep :: "'s Avail \<Rightarrow> nat \<Rightarrow> 's state \<Rightarrow> 's state" where
  "sleep d seconds st = emit (Slept seconds) (st\<lparr>world := time_Sleep d seconds (world st)\<rparr>)"

text \<open>One definition for each call that changes the world: make the call, record it.\<close>

definition SearchBlock ::
  "'s Avail \<Rightarrow> int \<Rightarrow> 64 word \<Rightarrow> SearchFunc \<Rightarrow> 's state \<Rightarrow> (error + SignedBlock) \<times> 's state" where
  "SearchBlock d offset targetEdgeBlock searchFunc st =
     (let (r, w) = availClient_SearchBlock d (world st) offset targetEdgeBlock searchFunc
      in (r, emit (SearchBlock_called offset targetEdgeBlock r) (st\<lparr>world := w\<rparr>)))"

definition GetLatestHeader :: "'s Avail \<Rightarrow> 's state \<Rightarrow> (error + 32 word) \<times> 's state" where
  "GetLatestHeader d st =
     (let (r, w) = availClient_GetLatestHeader d (world st)
      in (r, emit (GetLatestHeader_called r) (st\<lparr>world := w\<rparr>)))"

definition FindCallIndex :: "'s Avail \<Rightarrow> 's state \<Rightarrow> (error + CallIndex) \<times> 's state" where
  "FindCallIndex d st =
     (let (r, w) = avail_FindCallIndex d (world st)
      in (r, emit (FindCallIndex_called r) (st\<lparr>world := w\<rparr>)))"

definition UnStake :: "'s Avail \<Rightarrow> bytes \<Rightarrow> 's state \<Rightarrow> error option \<times> 's state" where
  "UnStake d key st =
     (let (r, w) = stakingNode_UnStake d (world st) key
      in (r, emit (UnStake_called r) (st\<lparr>world := w\<rparr>)))"

definition IsFraudProofBlock :: "'s Avail \<Rightarrow> Block \<Rightarrow> 's state \<Rightarrow> bool \<times> 's state" where
  "IsFraudProofBlock d blk st =
     (let (r, w) = fraudResolver_IsFraudProofBlock d (world st) blk
      in (r, emit (IsFraudProofBlock_called blk r) (st\<lparr>world := w\<rparr>)))"

definition Check :: "'s Avail \<Rightarrow> Block \<Rightarrow> 's state \<Rightarrow> error option \<times> 's state" where
  "Check d blk st =
     (let (r, w) = validator_Check d (world st) blk
      in (r, emit (Check_called blk r) (st\<lparr>world := w\<rparr>)))"

definition WriteBlock ::
  "'s Avail \<Rightarrow> Block \<Rightarrow> MechanismType \<Rightarrow> 's state \<Rightarrow> error option \<times> 's state" where
  "WriteBlock d blk source st =
     (let (r, w) = blockchain_WriteBlock d (world st) blk source
      in (r, emit (WriteBlock_called blk source r) (st\<lparr>world := w\<rparr>)))"

definition InProbation :: "'s Avail \<Rightarrow> bytes \<Rightarrow> 's state \<Rightarrow> (bool \<times> error option) \<times> 's state" where
  "InProbation d addr st =
     (let ((b, err), w) = querier_InProbation d (world st) addr
      in ((b, err), emit (InProbation_called b err) (st\<lparr>world := w\<rparr>)))"

definition Contains ::
  "'s Avail \<Rightarrow> bytes \<Rightarrow> NodeType \<Rightarrow> 's state \<Rightarrow> (bool \<times> error option) \<times> 's state" where
  "Contains d addr nt st =
     (let ((b, err), w) = querier_Contains d (world st) addr nt
      in ((b, err), emit (Contains_called nt b err) (st\<lparr>world := w\<rparr>)))"

definition AddTx :: "'s Avail \<Rightarrow> Transaction \<Rightarrow> 's state \<Rightarrow> error option \<times> 's state" where
  "AddTx d tx st =
     (let (r, w) = txpool_AddTx d (world st) tx
      in (r, emit (AddTx_called tx r) (st\<lparr>world := w\<rparr>)))"

definition bb_Build :: "'s Avail \<Rightarrow> BlockBuilder \<Rightarrow> 's state \<Rightarrow> (error + Block) \<times> 's state" where
  "bb_Build d bb st =
     (let (r, w) = Build d (world st) bb
      in (r, emit (Build_called bb r) (st\<lparr>world := w\<rparr>)))"

definition SendAndWaitForStatus :: "'s Avail \<Rightarrow> Block \<Rightarrow> 's state \<Rightarrow> error option \<times> 's state" where
  "SendAndWaitForStatus d blk st =
     (let (r, w) = availSender_SendAndWaitForStatus d (world st) blk
      in (r, emit (SendAndWaitForStatus_called blk r) (st\<lparr>world := w\<rparr>)))"

section \<open>Syncer\<close>

text \<open>
  Length and elements of a Go slice that may be \<open>nil\<close>: \<open>len\<close> of a nil slice is 0 and
  \<open>range\<close> over it runs no iteration.
\<close>

definition len :: "'a list option \<Rightarrow> nat" where
  "len xs = (case xs of None \<Rightarrow> 0 | Some ys \<Rightarrow> length ys)"

definition elems :: "'a list option \<Rightarrow> 'a list" where
  "elems xs = (case xs of None \<Rightarrow> [] | Some ys \<Rightarrow> ys)"

text \<open>
  \<open>syncFunc\<close> (src/consensus/avail/syncer.go): the predicate handed to the DA search. It
  returns the Go triple \<open>(int, bool, error)\<close>. The loop over \<open>blks\<close> is
  \<open>syncFunc_range\<close>.
\<close>

fun syncFunc_range :: "SignedBlock \<Rightarrow> 64 word \<Rightarrow> Block list \<Rightarrow> int \<times> bool \<times> error option" where
  "syncFunc_range availBlk targetEdgeBlock [] = (- 1, False, None)"
| "syncFunc_range availBlk targetEdgeBlock (blk # rest) =
     (if Number (Header blk) = targetEdgeBlock then (uint (BlockNumber availBlk), True, None)
      else syncFunc_range availBlk targetEdgeBlock rest)"

definition syncFunc :: "'s Avail \<Rightarrow> SearchFunc" where
  "syncFunc d availBlk targetEdgeBlock callIdx =
     (let (blks, err) = FromAvail (codecs d) availBlk (availAppID d) callIdx in
      if err \<noteq> None \<and> err \<noteq> Some ErrNoExtrinsicFound then (- 1, False, err)
      else if blks = None \<or> len blks < 1 then (- 1, False, None)
      else syncFunc_range availBlk targetEdgeBlock (elems blks))"

text \<open>\<open>getNextAvailBlockNumber\<close>: the DA block number to resume from.\<close>

definition getNextAvailBlockNumber :: "'s Avail \<Rightarrow> 's state \<Rightarrow> 64 word \<times> 's state" where
  "getNextAvailBlockNumber d st =
     (let head = blockchain_Header d (world st) in
      if Number head = 0 then (1, st)
      else
        (let (r, st1) = SearchBlock d 0 (Number head) (syncFunc d) st in
         case r of
           Inl err \<Rightarrow> (0, logger Error ''failure to sync node'' st1)
         | Inr blk \<Rightarrow> (ucast (BlockNumber blk), st1)))"

text \<open>
  The body of the loop over the settlement blocks of one DA block (lines 73 to 96 of
  syncer.go), and the loop.
\<close>

definition syncNode_edgeBlk :: "'s Avail \<Rightarrow> Block \<Rightarrow> 's state \<Rightarrow> 's state" where
  "syncNode_edgeBlk d edgeBlk st =
     (let (isFraud, st1) = IsFraudProofBlock d edgeBlk st in
      if \<not> isFraud then
        (let (err, st2) = Check d edgeBlk st1 in
         if err = None then
           (let st3 = (if length (Transactions edgeBlk) > 0
                       then logger Warn ''WE HAVE TRANSACTIONS INSIDE'' st2 else st2);
                (werr, st4) = WriteBlock d edgeBlk (nodeType d) st3
            in if werr \<noteq> None
               then logger Warn ''failed to write edge block received from avail'' st4
               else st4)
         else logger Warn ''failed to validate edge block received from avail'' st2)
      else st1)"

fun syncNode_edgeBlks :: "'s Avail \<Rightarrow> Block list \<Rightarrow> 's state \<Rightarrow> 's state" where
  "syncNode_edgeBlks d [] st = st"
| "syncNode_edgeBlks d (edgeBlk # rest) st =
     syncNode_edgeBlks d rest (syncNode_edgeBlk d edgeBlk st)"

text \<open>
  How a run of the syncer ends: it returns the Go pair \<open>(uint64, error)\<close>, or it waits
  forever in the \<open>select\<close> because neither a DA block nor the shutdown signal arrives.
\<close>

datatype outcome = Returned "64 word" "error option" | Blocked

text \<open>
  The main loop of \<open>syncNode\<close>, one equation for each thing the \<open>select\<close> can receive.
  \<open>hdr\<close> is the number of the DA head fetched before the loop.
\<close>

fun syncNode_loop ::
  "'s Avail \<Rightarrow> 32 word \<Rightarrow> CallIndex \<Rightarrow> select list \<Rightarrow> 64 word \<Rightarrow> 's state
    \<Rightarrow> outcome \<times> 's state" where
  "syncNode_loop d hdr callIdx [] availNextBlockNumber st = (Blocked, st)"
| "syncNode_loop d hdr callIdx (CloseCh # rest) availNextBlockNumber st =
     (let (err, st1) = UnStake d (signKey d) st in
      if err \<noteq> None
      then (Returned availNextBlockNumber None,
            logger Error ''failed to unstake the node'' st1)
      else (Returned 0 None, st1))"
| "syncNode_loop d hdr callIdx (Recv blk # rest) availNextBlockNumber st =
     (let (edgeBlks, err) = FromAvail (codecs d) blk (availAppID d) callIdx in
      if len edgeBlks = 0 \<and> err \<noteq> None \<and> err \<noteq> Some ErrNoExtrinsicFound then
        syncNode_loop d hdr callIdx rest availNextBlockNumber
          (logger Warn ''unexpected error while extracting SL blocks from Avail block'' st)
      else
        (let st1 = syncNode_edgeBlks d (elems edgeBlks) st;
             availNextBlockNumber' = ucast (BlockNumber blk)
         in if hdr = BlockNumber blk then (Returned availNextBlockNumber' None, st1)
            else syncNode_loop d hdr callIdx rest availNextBlockNumber' st1))"

text \<open>
  \<open>syncNode\<close>. The constructors of the fraud resolver and of the validator have no
  effect of their own here; the deferred \<open>Close\<close> of the stream runs when the function
  returns.
\<close>

definition syncNode :: "'s Avail \<Rightarrow> 's state \<Rightarrow> outcome \<times> 's state" where
  "syncNode d st =
     (let (availNextBlockNumber, st1) = getNextAvailBlockNumber d st;
          (h, st2) = GetLatestHeader d st1
      in case h of
           Inl err \<Rightarrow> (Returned 0 None, logger Error ''couldn't fetch latest block hash'' st2)
         | Inr hdr \<Rightarrow>
             (let (c, st3) = FindCallIndex d st2 in
              case c of
                Inl err \<Rightarrow> (Returned availNextBlockNumber (Some err), st3)
              | Inr callIdx \<Rightarrow>
                  (let availBlockStream =
                         availClient_BlockStream d (world st3) availNextBlockNumber;
                       st4 = emit (BlockStream_opened availNextBlockNumber) st3;
                       (out, st5) =
                         syncNode_loop d hdr callIdx availBlockStream availNextBlockNumber st4
                   in case out of
                        Blocked \<Rightarrow> (Blocked, st5)
                      | Returned n e \<Rightarrow> (Returned n e, emit BlockStream_closed st5))))"

section \<open>Staking state machine\<close>

text \<open>
  A loop that polls the world can run forever. Such a loop is a partial function into
  \<open>option\<close>: \<open>None\<close> says that the call never returns to its caller. Error messages
  built with a format string are given by their fixed text.

  \<open>stakeParticipant\<close> (the direct-block path). Its wait loop reads
  \<open>d.network.GetBootnodeConnCount()\<close> with no \<open>nil\<close> test; on a \<open>nil\<close> network the
  call panics and does not return.
\<close>

partial_function (option) stakeParticipant_wait :: "'s Avail \<Rightarrow> 's state \<Rightarrow> 's state option" where
  "stakeParticipant_wait d st =
     (case network d of
        None \<Rightarrow> None
      | Some GetBootnodeConnCount \<Rightarrow>
          if GetBootnodeConnCount (world st) > 0 then Some st
          else stakeParticipant_wait d (sleep d 1 st))"

definition stakeParticipant_build ::
  "'s Avail \<Rightarrow> MechanismType \<Rightarrow> 's state \<Rightarrow> error option \<times> 's state" where
  "stakeParticipant_build d nodeType' st =
     (case FromBlockchainHead d (world st) of
        Inl err \<Rightarrow> (Some err, st)
      | Inr bb0 \<Rightarrow>
          (let bb1 = bb0\<lparr>coinbase := minerAddr d\<rparr>;
               bb2 = bb1\<lparr>signKeyOf := signKey d\<rparr>;
               stakeAmount = 10 * ETH d
           in case staking_StakeTx d (minerAddr d) stakeAmount nodeType' 1000000 of
                Inl err \<Rightarrow> (Some err, st)
              | Inr tx0 \<Rightarrow>
                  (case txSigner_SignTx d tx0 (signKey d) of
                     Inl err \<Rightarrow> (Some err, st)
                   | Inr tx \<Rightarrow>
                       (let bb3 = bb2\<lparr>transactions := transactions bb2 @ [tx]\<rparr>;
                            (b, st1) = bb_Build d bb3 st
                        in case b of
                             Inl err \<Rightarrow>
                               (Some err, logger Error ''failed to build staking block'' st1)
                           | Inr blk \<Rightarrow>
                               (let st2 = logger Debug
                                            ''sending block with staking tx to Avail'' st1;
                                    (err, st3) = SendAndWaitForStatus d blk st2
                                in if err \<noteq> None then
                                     (err, logger Error
                                             ''error while submitting data to avail'' st3)
                                   else
                                     (let st4 = logger Info
                                            ''Successfully wrote staking block to the blockchain''
                                            st3;
                                          (werr, st5) = WriteBlock d blk (nodeType d) st4
                                      in if werr \<noteq> None then (werr, st5)
                                         else (None, st5)))))))"

definition stakeParticipant ::
  "'s Avail \<Rightarrow> bool \<Rightarrow> MechanismType \<Rightarrow> 's state \<Rightarrow> (error option \<times> 's state) option" where
  "stakeParticipant d shouldWait nodeType' st =
     (case (if shouldWait then stakeParticipant_wait d st else Some st) of
        None \<Rightarrow> None
      | Some st0 \<Rightarrow> Some (stakeParticipant_build d nodeType' st0))"

text \<open>
  \<open>stakeParticipantThroughTxPool\<close> (the pool path): the wait for a bootnode connection,
  the bounded submission loop over \<open>retries\<close> (it carries \<open>err\<close>, which the code tests
  after the loop), and the poll of the participant status after the submission.
\<close>

partial_function (option) txPool_wait :: "'s Avail \<Rightarrow> 's state \<Rightarrow> 's state option" where
  "txPool_wait d st =
     (case network d of
        None \<Rightarrow> Some st
      | Some GetBootnodeConnCount \<Rightarrow>
          if GetBootnodeConnCount (world st) > 0 then Some st
          else txPool_wait d (sleep d 1 st))"

function txPool_submit ::
  "'s Avail \<Rightarrow> Transaction \<Rightarrow> nat \<Rightarrow> error option \<Rightarrow> 's state \<Rightarrow> error option \<times> 's state" where
  "txPool_submit d tx retries err st =
     (if retries < 10 then
        (let (err', st1) = AddTx d tx st in
         if err' \<noteq> None then
           txPool_submit d tx (retries + 1) err'
             (sleep d 2 (logger Error ''Failure to add staking tx to the txpool err: %s'' st1))
         else (err', st1))
      else (err, st))"
  by pat_completeness auto
termination
  by (relation "measure (\<lambda>(d, tx, retries, err, st). 10 - retries)") auto

partial_function (option) txPool_poll ::
  "'s Avail \<Rightarrow> 's state \<Rightarrow> ((bool \<times> error option) \<times> 's state) option" where
  "txPool_poll d st =
     (let st1 = logger Info ''Submitted transaction, waiting for staking contract update...'' st;
          ((staked, err), st2) = Contains d (minerAddr d) (NodeType_of (nodeType d)) st1
      in if err \<noteq> None then Some ((False, err), st2)
         else
           (let st3 = sleep d 3 st2 in
            if staked then Some ((True, None), st3) else txPool_poll d st3))"

definition stakeParticipantThroughTxPool ::
  "'s Avail \<Rightarrow> 's state \<Rightarrow> ((bool \<times> error option) \<times> 's state) option" where
  "stakeParticipantThroughTxPool d st =
     (case txPool_wait d st of
        None \<Rightarrow> None
      | Some st1 \<Rightarrow>
          (let st2 = sleep d 5 st1;
               stakeAmount = 10 * ETH d
           in case staking_StakeTx d (minerAddr d) stakeAmount (nodeType d) 1000000 of
                Inl err \<Rightarrow> Some ((False, Some err), st2)
              | Inr tx0 \<Rightarrow>
                  (case txSigner_SignTx d tx0 (signKey d) of
                     Inl err \<Rightarrow> Some ((False, Some err), st2)
                   | Inr tx \<Rightarrow>
                       (let (err, st3) = txPool_submit d tx 0 None st2 in
                        if err \<noteq> None then Some ((False, err), st3)
                        else txPool_poll d st3))))"

text \<open>
  The loop that \<open>ensureStaked\<close> starts as a goroutine. \<open>nodeType'\<close> is the local
  \<open>staking.NodeType\<close> computed before the loop and \<open>returnErr\<close> the captured variable
  the loop assigns. One pass through the body of the \<open>for\<close> ends in one of three ways:
  the body reaches a \<open>continue\<close> or its end, and the loop goes on with the next pass
  (\<open>Again\<close>); the body reaches its \<open>return\<close> (\<open>Done\<close>); or a call inside the body
  never returns (\<open>None\<close>). Both carry \<open>returnErr\<close> and the state as the pass leaves
  them.
\<close>

datatype 's loop_step = Again "error option" "'s state" | Done "error option" "'s state"

definition ensureStaked_iteration ::
  "'s Avail \<Rightarrow> NodeType \<Rightarrow> error option \<Rightarrow> 's state \<Rightarrow> 's loop_step option" where
  "ensureStaked_iteration d nodeType' returnErr st =
     (let ((inProbation, err), st1) = InProbation d (minerAddr d) st in
      if err \<noteq> None then
        Some (Again returnErr
          (sleep d 3 (logger Error ''Failed to check if participant is currently in probation... Rechecking again in few seconds...'' st1)))
      else if inProbation then
        Some (Again returnErr
          (sleep d 5 (logger Warn ''Participant (node/miner) is currently in probation.... Rechecking again in few seconds...'' st1)))
      else
        (let ((staked, err), st2) = Contains d (minerAddr d) nodeType' st1 in
         if err \<noteq> None then
           Some (Again returnErr
             (sleep d 3 (logger Error ''Failed to check if participant exists... Rechecking again in few seconds...'' st2)))
         else if staked then
           Some (Again returnErr
             (sleep d 3 (logger Info ''Node is successfully staked... Rechecking in few seconds for potential changes...'' st2)))
         else
           (case nodeType d of
              BootstrapSequencer \<Rightarrow>
                (case stakeParticipant d False Sequencer st2 of
                   None \<Rightarrow> None
                 | Some (returnErr', st3) \<Rightarrow> Some (Again returnErr' st3))
            | Sequencer \<Rightarrow>
                (case stakeParticipantThroughTxPool d st2 of
                   None \<Rightarrow> None
                 | Some ((staked', returnErr'), st3) \<Rightarrow>
                     if staked' then Some (Done returnErr' st3)
                     else Some (Again returnErr' st3))
            | WatchTower \<Rightarrow>
                (case stakeParticipantThroughTxPool d st2 of
                   None \<Rightarrow> None
                 | Some ((staked', returnErr'), st3) \<Rightarrow>
                     if staked' then Some (Done returnErr' st3)
                     else Some (Again returnErr' st3))
            | OtherMechanism s \<Rightarrow> Some (Again returnErr st2))))"

text \<open>
  The \<open>for\<close> itself: pass after pass until one reaches the \<open>return\<close>. The result is
  the last \<open>returnErr\<close> and the state; \<open>None\<close> says that the loop never returns, be it
  that it runs for ever or that a call inside a pass never returns.
\<close>

partial_function (option) ensureStaked_loop ::
  "'s Avail \<Rightarrow> NodeType \<Rightarrow> error option \<Rightarrow> 's state \<Rightarrow> (error option \<times> 's state) option" where
  "ensureStaked_loop d nodeType' returnErr st =
     (case ensureStaked_iteration d nodeType' returnErr st of
        None \<Rightarrow> None
      | Some (Again returnErr' st') \<Rightarrow> ensureStaked_loop d nodeType' returnErr' st'
      | Some (Done returnErr' st') \<Rightarrow> Some (returnErr', st'))"


text \<open>
  \<open>ensureStaked\<close>: an unknown node type is an error and no loop is started; otherwise
  the loop runs with the staking node type of the role. \<open>Inr\<close> carries what the loop
  does. The loop is modelled on its own: how the goroutine interleaves with the syncer,
  and what \<open>ensureStaked\<close> itself reads from \<open>returnErr\<close> while the goroutine
  runs, are not part of the model.
\<close>

definition ensureStaked ::
  "'s Avail \<Rightarrow> 's state \<Rightarrow> error + (error option \<times> 's state) option" where
  "ensureStaked d st =
     (case nodeType d of
        BootstrapSequencer \<Rightarrow> Inr (ensureStaked_loop d staking_Sequencer None st)
      | Sequencer \<Rightarrow> Inr (ensureStaked_loop d staking_Sequencer None st)
      | WatchTower \<Rightarrow> Inr (ensureStaked_loop d staking_WatchTower None st)
      | OtherMechanism s \<Rightarrow> Inl (Err ''unknown node type''))"

declare txPool_submit.simps [simp del]

section \<open>The DA range search\<close>

text \<open>
  Modelled from the spec: \<open>SearchBlock\<close>, the range-search primitive of the DA client
  (\<open>pkg/avail\<close>), is not among the source files. The spec (section 4.3) describes it as
  a search of the DA range for the DA block on which the supplied predicate reports a
  match, and leaves the strategy open (``only the predicate is'' part of the contract).
  The model scans a DA history in order and hands each DA block, the target and the
  call index to the predicate: an error of the predicate ends the search with that error,
  the first DA block with a match is the result, and a history without a match is an error.
\<close>

fun search_history ::
  "SignedBlock list \<Rightarrow> CallIndex \<Rightarrow> 64 word \<Rightarrow> SearchFunc \<Rightarrow> error + SignedBlock" where
  "search_history [] callIdx targetEdgeBlock searchFunc = Inl (Err ''block not found'')"
| "search_history (availBlk # rest) callIdx targetEdgeBlock searchFunc =
     (case searchFunc availBlk targetEdgeBlock callIdx of
        (n, found, Some err) \<Rightarrow> Inl err
      | (n, True, None) \<Rightarrow> Inr availBlk
      | (n, False, None) \<Rightarrow> search_history rest callIdx targetEdgeBlock searchFunc)"

section \<open>Vocabulary of the statements\<close>

text \<open>
  The calls of the syncer that decide about a settlement block: the fraud gate, the
  validator and the commit to the local chain.
\<close>

fun gate_call :: "event \<Rightarrow> bool" where
  "gate_call (IsFraudProofBlock_called blk r) = True"
| "gate_call (Check_called blk r) = True"
| "gate_call (WriteBlock_called blk source r) = True"
| "gate_call e = False"

text \<open>What one failed submission to the transaction pool leaves in the trace.\<close>

definition failed_submission :: "Transaction \<Rightarrow> error \<Rightarrow> event list" where
  "failed_submission tx err =
     [AddTx_called tx (Some err),
      Log Error ''Failure to add staking tx to the txpool err: %s'',
      Slept 2]"

text \<open>
  One round of the poll after a submission that finds the node not yet staked: the
  query, then the three seconds of sleep.
\<close>

definition poll_round :: "'s Avail \<Rightarrow> 's state \<Rightarrow> 's state" where
  "poll_round d st =
     sleep d 3
       (snd (Contains d (minerAddr d) (NodeType_of (nodeType d))
          (logger Info ''Submitted transaction, waiting for staking contract update...'' st)))"

definition poll_answer :: "'s Avail \<Rightarrow> 's state \<Rightarrow> bool \<times> error option" where
  "poll_answer d st =
     fst (Contains d (minerAddr d) (NodeType_of (nodeType d))
       (logger Info ''Submitted transaction, waiting for staking contract update...'' st))"

section \<open>Concrete inputs\<close>

text \<open>
  Decoders for the examples: each outer stage strips one byte and fails on empty input,
  and a settlement block is one byte, its number. A node in the sequencer role whose world
  is a clock: every call advances it by one, a sleep by its seconds, and a submission to
  the transaction pool by a hundred; the node counts as staked once the clock has reached
  a hundred. The fraud gate flags block 4 and the validator rejects block 5.
\<close>

definition example_codecs :: decoders where
  "example_codecs =
     \<lparr>codec_Decode =
        (\<lambda>args. case args of [] \<Rightarrow> Inl (Err ''bytes: unexpected end'') | b # bs \<Rightarrow> Inr bs),
      Blob_Decode =
        (\<lambda>bs. case bs of [] \<Rightarrow> Inl (Err ''blob: unexpected end'')
                | b # data \<Rightarrow> Inr \<lparr>Data = data\<rparr>),
      UnmarshalRLP =
        (\<lambda>data. case data of
           [n] \<Rightarrow> Inr \<lparr>Header = \<lparr>Number = ucast n, Hash = [n], ParentHash = []\<rparr>,
                       Transactions = []\<rparr>
         | _ \<Rightarrow> Inl (Err ''rlp: invalid block''))\<rparr>"

definition example_callIdx :: CallIndex where
  "example_callIdx = CallIndex 29 1"

definition payload :: "int \<Rightarrow> bytes \<Rightarrow> Extrinsic" where
  "payload app args = \<lparr>AppID = app, MethodCallIndex = example_callIdx, Args = args\<rparr>"

definition edge :: "8 word \<Rightarrow> Block" where
  "edge n = \<lparr>Header = \<lparr>Number = ucast n, Hash = [n], ParentHash = []\<rparr>, Transactions = []\<rparr>"

definition clean_block :: SignedBlock where
  "clean_block =
     \<lparr>BlockNumber = 11,
      Extrinsics = [payload 7 [0, 0, 3], payload 8 [0, 0, 9], payload 7 [0],
                    payload 7 [0, 0, 4], payload 7 [0, 0, 5]]\<rparr>"

definition corrupt_block :: SignedBlock where
  "corrupt_block =
     \<lparr>BlockNumber = 12,
      Extrinsics = [payload 7 [0, 0, 3], payload 8 [0, 0, 9], payload 7 [0, 0]]\<rparr>"

definition foreign_block :: SignedBlock where
  "foreign_block =
     \<lparr>BlockNumber = 10, Extrinsics = [payload 8 [0, 0, 9], payload 7 []]\<rparr>"

definition example_node :: "nat Avail" where
  "example_node =
     \<lparr>nodeType = Sequencer,
      availAppID = 7,
      minerAddr = [1],
      signKey = [2],
      ETH = 1000000000000000000,
      codecs = example_codecs,
      blockchain_Header = (\<lambda>w. \<lparr>Number = 0, Hash = [], ParentHash = []\<rparr>),
      blockchain_WriteBlock = (\<lambda>w blk source. (None, Suc w)),
      availClient_SearchBlock =
        (\<lambda>w offset target searchFunc.
           (search_history [foreign_block, clean_block, corrupt_block]
              example_callIdx target searchFunc, Suc w)),
      availClient_GetLatestHeader = (\<lambda>w. (Inr 12, Suc w)),
      avail_FindCallIndex = (\<lambda>w. (Inr example_callIdx, Suc w)),
      availClient_BlockStream = (\<lambda>w n. [Recv foreign_block, Recv clean_block, CloseCh]),
      stakingNode_UnStake = (\<lambda>w key. (Some (Err ''unstake: not staked''), Suc w)),
      fraudResolver_IsFraudProofBlock = (\<lambda>w blk. (Number (Header blk) = 4, Suc w)),
      validator_Check =
        (\<lambda>w blk. (if Number (Header blk) = 5 then Some (Err ''invalid block'') else None,
                  Suc w)),
      querier_InProbation = (\<lambda>w addr. ((False, None), Suc w)),
      querier_Contains = (\<lambda>w addr nt. ((100 \<le> w, None), Suc w)),
      network = None,
      time_Sleep = (\<lambda>seconds w. w + seconds),
      FromBlockchainHead = (\<lambda>w. Inr \<lparr>coinbase = [], signKeyOf = [], transactions = []\<rparr>),
      Build =
        (\<lambda>w bb. (Inr \<lparr>Header = \<lparr>Number = 1, Hash = [1], ParentHash = []\<rparr>,
                         Transactions = transactions bb\<rparr>, Suc w)),
      staking_StakeTx = (\<lambda>addr amount nt gas. Inr [9]),
      txSigner_SignTx = (\<lambda>tx key. Inr (tx @ key)),
      txpool_AddTx = (\<lambda>w tx. (None, w + 100)),
      availSender_SendAndWaitForStatus = (\<lambda>w blk. (None, Suc w))\<rparr>"

text \<open>The same node with a local chain head at settlement block 4.\<close>

definition resuming_node :: "nat Avail" where
  "resuming_node =
     example_node\<lparr>blockchain_Header := (\<lambda>w. \<lparr>Number = 4, Hash = [4], ParentHash = [3]\<rparr>)\<rparr>"

text \<open>
  The same node with a local chain head at settlement block 9, which no DA block of the
  history embeds; the search runs into the corrupt payload of the last DA block.
\<close>

definition lost_node :: "nat Avail" where
  "lost_node =
     example_node\<lparr>blockchain_Header := (\<lambda>w. \<lparr>Number = 9, Hash = [9], ParentHash = [8]\<rparr>)\<rparr>"

text \<open>The same node when the DA client cannot fetch the latest header.\<close>

definition offline_node :: "nat Avail" where
  "offline_node =
     example_node\<lparr>availClient_GetLatestHeader := (\<lambda>w. (Inl (Err ''connection refused''), Suc w))\<rparr>"

text \<open>The same node with a transaction pool that refuses every transaction.\<close>

definition refused_node :: "nat Avail" where
  "refused_node =
     example_node\<lparr>txpool_AddTx := (\<lambda>w tx. (Some (Err ''txpool is full''), Suc w))\<rparr>"

text \<open>
  The same node with a participants querier that answers while the clock is below three
  and fails from then on, as an RPC endpoint that goes away does.
\<close>

definition flaky_node :: "nat Avail" where
  "flaky_node =
     example_node\<lparr>querier_Contains :=
       (\<lambda>w addr nt. (if w < 3 then (False, None) else (False, Some (Err ''rpc unavailable'')),
                     Suc w))\<rparr>"



definition start :: "nat state" where
  "start = \<lparr>world = 0, trace = []\<rparr>"

section \<open>Properties\<close>


lemma FromAvail_loop_Cons:
  "FromAvail_loop D appID callIdx (extrinsic # rest) toReturn =
     (case extrinsic_yield D appID callIdx extrinsic of
        None \<Rightarrow> FromAvail_loop D appID callIdx rest toReturn
      | Some (Inl err) \<Rightarrow> (None, Some err)
      | Some (Inr blk) \<Rightarrow> FromAvail_loop D appID callIdx rest (toReturn @ [blk]))"
  by (simp add: extrinsic_yield_def matches_target_def outer_decode_def split: sum.splits)

subsection \<open>Block codec\<close>

lemma FromAvail_loop_skip:
  "decoded_block D appID callIdx e = None \<Longrightarrow> payload_error D appID callIdx e = None \<Longrightarrow>
   FromAvail_loop D appID callIdx (e # es) acc = FromAvail_loop D appID callIdx es acc"
  by (simp add: FromAvail_loop_Cons decoded_block_def payload_error_def
           del: FromAvail_loop.simps split: option.splits sum.splits)

lemma FromAvail_loop_take:
  "decoded_block D appID callIdx e = Some blk \<Longrightarrow>
   FromAvail_loop D appID callIdx (e # es) acc = FromAvail_loop D appID callIdx es (acc @ [blk])"
  by (simp add: FromAvail_loop_Cons decoded_block_def
           del: FromAvail_loop.simps split: option.splits sum.splits)

lemma FromAvail_loop_fatal:
  "payload_error D appID callIdx e = Some err \<Longrightarrow>
   FromAvail_loop D appID callIdx (e # es) acc = (None, Some err)"
  by (simp add: FromAvail_loop_Cons payload_error_def
           del: FromAvail_loop.simps split: option.splits sum.splits)

lemma FromAvail_loop_no_payload_error:
  "\<forall>e \<in> set es. payload_error D appID callIdx e = None \<Longrightarrow>
   FromAvail_loop D appID callIdx es acc =
     (if acc @ List.map_filter (decoded_block D appID callIdx) es = []
      then (None, Some ErrNoExtrinsicFound)
      else (Some (acc @ List.map_filter (decoded_block D appID callIdx) es), None))"
proof (induction es arbitrary: acc)
  case Nil
  then show ?case by simp
next
  case (Cons e es)
  have IH: "\<And>acc. FromAvail_loop D appID callIdx es acc =
     (if acc @ List.map_filter (decoded_block D appID callIdx) es = []
      then (None, Some ErrNoExtrinsicFound)
      else (Some (acc @ List.map_filter (decoded_block D appID callIdx) es), None))"
    using Cons by simp
  have ok: "payload_error D appID callIdx e = None" using Cons.prems by simp
  show ?case
  proof (cases "decoded_block D appID callIdx e")
    case None
    then show ?thesis
      using ok by (simp add: FromAvail_loop_skip IH del: FromAvail_loop.simps)
  next
    case (Some blk)
    then show ?thesis
      by (simp add: FromAvail_loop_take IH del: FromAvail_loop.simps)
  qed
qed

lemma FromAvail_loop_payload_error:
  "\<forall>e \<in> set pre. payload_error D appID callIdx e = None \<Longrightarrow>
   payload_error D appID callIdx x = Some err \<Longrightarrow>
   FromAvail_loop D appID callIdx (pre @ x # post) acc = (None, Some err)"
proof (induction pre arbitrary: acc)
  case Nil
  then show ?case by (simp add: FromAvail_loop_fatal del: FromAvail_loop.simps)
next
  case (Cons e es)
  have ok: "payload_error D appID callIdx e = None" using Cons.prems by simp
  show ?case
  proof (cases "decoded_block D appID callIdx e")
    case None
    then show ?thesis
      using ok Cons by (simp add: FromAvail_loop_skip del: FromAvail_loop.simps)
  next
    case (Some blk)
    then show ?thesis
      using Cons by (simp add: FromAvail_loop_take del: FromAvail_loop.simps)
  qed
qed

lemma decoded_block_matches:
  "decoded_block D appID callIdx e = Some blk \<Longrightarrow> matches_target appID callIdx e"
  by (simp add: decoded_block_def extrinsic_yield_def split: if_splits)

lemma decoded_le_matching:
  "length (List.map_filter (decoded_block D appID callIdx) es)
     \<le> length (filter (matches_target appID callIdx) es)"
proof (induction es)
  case Nil
  then show ?case by simp
next
  case (Cons e es)
  then show ?case
    by (cases "decoded_block D appID callIdx e") (auto dest: decoded_block_matches)
qed

text \<open>What the example decoders make of the example extrinsics.\<close>

lemma example_yield_block:
  "extrinsic_yield example_codecs 7 example_callIdx (payload 7 [0, 0, n]) = Some (Inr (edge n))"
  by (simp add: extrinsic_yield_def matches_target_def outer_decode_def example_codecs_def
        payload_def edge_def)

lemma example_yield_corrupt:
  "extrinsic_yield example_codecs 7 example_callIdx (payload 7 [0, 0]) =
     Some (Inl (Err ''rlp: invalid block''))"
  by (simp add: extrinsic_yield_def matches_target_def outer_decode_def example_codecs_def
        payload_def)

lemma example_yield_skipped:
  "extrinsic_yield example_codecs 7 example_callIdx (payload 8 args) = None"
  "extrinsic_yield example_codecs 7 example_callIdx (payload 7 [0]) = None"
  "extrinsic_yield example_codecs 7 example_callIdx (payload 7 []) = None"
  by (simp_all add: extrinsic_yield_def matches_target_def outer_decode_def example_codecs_def
        payload_def Int64_def)

lemma example_matches:
  "matches_target 7 example_callIdx (payload 7 args)"
  "\<not> matches_target 7 example_callIdx (payload 8 args)"
  by (simp_all add: matches_target_def payload_def Int64_def)

lemmas example_extrinsics =
  example_yield_block example_yield_corrupt example_yield_skipped example_matches
  decoded_block_def payload_error_def

lemma FromAvail_clean_block:
  "FromAvail example_codecs clean_block 7 example_callIdx = (Some [edge 3, edge 4, edge 5], None)"
  by (simp add: FromAvail_def clean_block_def FromAvail_loop_Cons example_extrinsics
           del: FromAvail_loop.simps(2))

lemma FromAvail_corrupt_block:
  "FromAvail example_codecs corrupt_block 7 example_callIdx =
     (None, Some (Err ''rlp: invalid block''))"
  by (simp add: FromAvail_def corrupt_block_def FromAvail_loop_Cons example_extrinsics
           del: FromAvail_loop.simps(2))

lemma FromAvail_foreign_block:
  "FromAvail example_codecs foreign_block 7 example_callIdx = (None, Some ErrNoExtrinsicFound)"
  by (simp add: FromAvail_def foreign_block_def FromAvail_loop_Cons example_extrinsics
           del: FromAvail_loop.simps(2))

text \<open>
  C2, as the claim states it, fails: in \<open>corrupt_block\<close> two extrinsics match the target
  and one of them decodes through all three stages, yet \<open>FromAvail\<close> returns no
  settlement block at all, but \<open>nil\<close> and the decode error of the other one.
\<close>

theorem FromAvail_drops_decoded_blocks:
  "length (filter (matches_target 7 example_callIdx) (Extrinsics corrupt_block)) = 2
   \<and> length (List.map_filter (decoded_block example_codecs 7 example_callIdx)
        (Extrinsics corrupt_block)) = 1
   \<and> FromAvail example_codecs corrupt_block 7 example_callIdx =
        (None, Some (Err ''rlp: invalid block''))"
  by (simp add: FromAvail_corrupt_block) (simp add: corrupt_block_def example_extrinsics)

text \<open>
  C2, amended: when no extrinsic that matches the target and passes the bytes and Blob
  stages fails the settlement-block stage, \<open>FromAvail\<close> returns exactly the settlement
  blocks of the matching extrinsics that decode through all three stages, in the order of
  the extrinsics; there are at most as many of them as matching extrinsics, every other
  extrinsic is skipped, and when there is none the result is \<open>nil\<close> with
  \<open>ErrNoExtrinsicFound\<close>.
\<close>

theorem FromAvail_decoded_in_order:
  assumes "\<forall>e \<in> set (Extrinsics avail_blk). payload_error D appID callIdx e = None"
  shows "FromAvail D avail_blk appID callIdx =
           (if List.map_filter (decoded_block D appID callIdx) (Extrinsics avail_blk) = []
            then (None, Some ErrNoExtrinsicFound)
            else (Some (List.map_filter (decoded_block D appID callIdx) (Extrinsics avail_blk)),
                  None))
       \<and> length (List.map_filter (decoded_block D appID callIdx) (Extrinsics avail_blk))
           \<le> length (filter (matches_target appID callIdx) (Extrinsics avail_blk))"
proof -
  have "FromAvail D avail_blk appID callIdx =
      (if List.map_filter (decoded_block D appID callIdx) (Extrinsics avail_blk) = []
       then (None, Some ErrNoExtrinsicFound)
       else (Some (List.map_filter (decoded_block D appID callIdx) (Extrinsics avail_blk)),
             None))"
    using FromAvail_loop_no_payload_error [OF assms, of "[]"] by (simp add: FromAvail_def)
  then show ?thesis
    using decoded_le_matching [of D appID callIdx "Extrinsics avail_blk"] by blast
qed

theorem FromAvail_decoded_in_order_witness:
  "map (payload_error example_codecs 7 example_callIdx) (Extrinsics clean_block) =
     [None, None, None, None, None]
   \<and> FromAvail example_codecs clean_block 7 example_callIdx =
       (Some [edge 3, edge 4, edge 5], None)
   \<and> length (filter (matches_target 7 example_callIdx) (Extrinsics clean_block)) = 4"
proof -
  have h: "\<forall>e \<in> set (Extrinsics clean_block).
             payload_error example_codecs 7 example_callIdx e = None"
    by (simp add: clean_block_def example_extrinsics)
  have m: "List.map_filter (decoded_block example_codecs 7 example_callIdx)
             (Extrinsics clean_block) = [edge 3, edge 4, edge 5]"
    by (simp add: clean_block_def example_extrinsics)
  show ?thesis
    using FromAvail_decoded_in_order [OF h] unfolding m
    by (simp add: clean_block_def example_extrinsics)
qed

text \<open>
  C3: when an extrinsic of the DA block matches the target, passes the bytes and Blob
  stages and fails to decode as a settlement block, \<open>FromAvail\<close> returns \<open>nil\<close> and
  a decode error, whatever the earlier extrinsics yielded and whatever follows. The error
  is the one of the first such extrinsic: the one of this extrinsic unless an earlier
  payload is corrupt too.
\<close>

theorem FromAvail_payload_error_fatal:
  assumes "Extrinsics avail_blk = pre @ x # post"
    and "matches_target appID callIdx x"
    and "outer_decode D x = Some blob"
    and "UnmarshalRLP D (Data blob) = Inl err"
  shows "fst (FromAvail D avail_blk appID callIdx) = None
       \<and> (\<exists>y \<in> set (pre @ [x]).
            snd (FromAvail D avail_blk appID callIdx) \<noteq> None
            \<and> snd (FromAvail D avail_blk appID callIdx) = payload_error D appID callIdx y)
       \<and> ((\<forall>e \<in> set pre. payload_error D appID callIdx e = None)
            \<longrightarrow> FromAvail D avail_blk appID callIdx = (None, Some err))"
proof -
  have x: "payload_error D appID callIdx x = Some err"
    using assms(2-4) by (simp add: payload_error_def extrinsic_yield_def)
  have "\<exists>y \<in> set (pre @ [x]). payload_error D appID callIdx y \<noteq> None"
    using x by simp
  then obtain ys y zs where
    split: "pre @ [x] = ys @ y # zs" and
    y: "payload_error D appID callIdx y \<noteq> None" and
    ys: "\<forall>e \<in> set ys. \<not> payload_error D appID callIdx e \<noteq> None"
    using split_list_first_prop [of "pre @ [x]" "\<lambda>e. payload_error D appID callIdx e \<noteq> None"]
    by blast
  from y obtain err' where err': "payload_error D appID callIdx y = Some err'" by auto
  have "Extrinsics avail_blk = ys @ y # (zs @ post)"
    using assms(1) split by (metis append.assoc append_Cons append_Nil)
  then have r: "FromAvail D avail_blk appID callIdx = (None, Some err')"
    using FromAvail_loop_payload_error [of ys D appID callIdx y err' "zs @ post" "[]"] ys err'
    by (simp add: FromAvail_def)
  have mem: "y \<in> set (pre @ [x])" using split by (metis in_set_conv_decomp)
  have first: "(\<forall>e \<in> set pre. payload_error D appID callIdx e = None)
      \<longrightarrow> FromAvail D avail_blk appID callIdx = (None, Some err)"
    using FromAvail_loop_payload_error [of pre D appID callIdx x err post "[]"] x assms(1)
    by (simp add: FromAvail_def)
  show ?thesis
    using r err' mem first by (metis fst_conv snd_conv option.distinct(1))
qed

theorem FromAvail_payload_error_fatal_witness:
  "Extrinsics corrupt_block = [payload 7 [0, 0, 3], payload 8 [0, 0, 9]] @ payload 7 [0, 0] # []
   \<and> matches_target 7 example_callIdx (payload 7 [0, 0])
   \<and> outer_decode example_codecs (payload 7 [0, 0]) = Some \<lparr>Data = []\<rparr>
   \<and> UnmarshalRLP example_codecs (Data \<lparr>Data = []\<rparr>) = Inl (Err ''rlp: invalid block'')
   \<and> decoded_block example_codecs 7 example_callIdx (payload 7 [0, 0, 3]) = Some (edge 3)
   \<and> FromAvail example_codecs corrupt_block 7 example_callIdx =
       (None, Some (Err ''rlp: invalid block''))"
proof -
  have a: "Extrinsics corrupt_block =
      [payload 7 [0, 0, 3], payload 8 [0, 0, 9]] @ payload 7 [0, 0] # []"
    by (simp add: corrupt_block_def)
  have b: "matches_target 7 example_callIdx (payload 7 [0, 0])"
    by (simp add: example_extrinsics)
  have c: "outer_decode example_codecs (payload 7 [0, 0]) = Some \<lparr>Data = []\<rparr>"
    by (simp add: outer_decode_def example_codecs_def payload_def)
  have d: "UnmarshalRLP example_codecs (Data \<lparr>Data = []\<rparr>) = Inl (Err ''rlp: invalid block'')"
    by (simp add: example_codecs_def)
  have e: "\<forall>e \<in> set [payload 7 [0, 0, 3], payload 8 [0, 0, 9]].
             payload_error example_codecs 7 example_callIdx e = None"
    by (simp add: example_extrinsics)
  have f: "decoded_block example_codecs 7 example_callIdx (payload 7 [0, 0, 3]) = Some (edge 3)"
    by (simp add: example_extrinsics)
  show ?thesis
    using FromAvail_payload_error_fatal [OF a b c d] a b c d e f by blast
qed

text \<open>
  C4: when no extrinsic of the DA block yields a settlement block, because each one either
  misses the target or fails the bytes or Blob stage, \<open>FromAvail\<close> returns \<open>nil\<close>
  together with \<open>ErrNoExtrinsicFound\<close>.
\<close>

theorem FromAvail_none_found:
  assumes "\<forall>e \<in> set (Extrinsics avail_blk).
             \<not> matches_target appID callIdx e \<or> outer_decode D e = None"
  shows "FromAvail D avail_blk appID callIdx = (None, Some ErrNoExtrinsicFound)"
proof -
  have y: "\<forall>e \<in> set (Extrinsics avail_blk). extrinsic_yield D appID callIdx e = None"
    using assms by (auto simp: extrinsic_yield_def)
  have p: "\<forall>e \<in> set (Extrinsics avail_blk). payload_error D appID callIdx e = None"
    using y by (simp add: payload_error_def)
  have "List.map_filter (decoded_block D appID callIdx) (Extrinsics avail_blk) = []"
    using y by (simp add: map_filter_def decoded_block_def filter_empty_conv)
  then show ?thesis
    using FromAvail_loop_no_payload_error [OF p, of "[]"] by (simp add: FromAvail_def)
qed

theorem FromAvail_none_found_witness:
  "map (matches_target 7 example_callIdx) (Extrinsics foreign_block) = [False, True]
   \<and> map (outer_decode example_codecs) (Extrinsics foreign_block) =
       [Some \<lparr>Data = [9]\<rparr>, None]
   \<and> FromAvail example_codecs foreign_block 7 example_callIdx =
       (None, Some ErrNoExtrinsicFound)"
proof -
  have m: "map (matches_target 7 example_callIdx) (Extrinsics foreign_block) = [False, True]"
    by (simp add: foreign_block_def example_extrinsics)
  have o: "map (outer_decode example_codecs) (Extrinsics foreign_block) =
      [Some \<lparr>Data = [9]\<rparr>, None]"
    by (simp add: foreign_block_def outer_decode_def example_codecs_def payload_def)
  have h: "\<forall>e \<in> set (Extrinsics foreign_block).
             \<not> matches_target 7 example_callIdx e \<or> outer_decode example_codecs e = None"
    using m o by (simp add: foreign_block_def)
  show ?thesis
    using FromAvail_none_found [OF h] m o by simp
qed

subsection \<open>Syncer: the fraud gate and the validator\<close>

lemma trace_emit: "trace (emit e st) = trace st @ [e]"
  by (simp add: emit_def)

lemma world_emit: "world (emit e st) = world st"
  by (simp add: emit_def)

lemma trace_logger: "trace (logger lvl msg st) = trace st @ [Log lvl msg]"
  by (simp add: logger_def emit_def)

lemma world_logger: "world (logger lvl msg st) = world st"
  by (simp add: logger_def emit_def)

lemma trace_sleep: "trace (sleep d n st) = trace st @ [Slept n]"
  by (simp add: sleep_def emit_def)

lemma IsFraudProofBlock_trace:
  "trace (snd (IsFraudProofBlock d blk st)) =
     trace st @ [IsFraudProofBlock_called blk (fst (IsFraudProofBlock d blk st))]"
  by (simp add: IsFraudProofBlock_def emit_def split: prod.splits)

lemma Check_trace:
  "trace (snd (Check d blk st)) = trace st @ [Check_called blk (fst (Check d blk st))]"
  by (simp add: Check_def emit_def split: prod.splits)

lemma WriteBlock_trace:
  "trace (snd (WriteBlock d blk source st)) =
     trace st @ [WriteBlock_called blk source (fst (WriteBlock d blk source st))]"
  by (simp add: WriteBlock_def emit_def split: prod.splits)

lemma UnStake_trace:
  "trace (snd (UnStake d key st)) = trace st @ [UnStake_called (fst (UnStake d key st))]"
  by (simp add: UnStake_def emit_def split: prod.splits)

lemma UnStake_answer:
  "fst (UnStake d key st) = fst (stakingNode_UnStake d (world st) key)"
  by (simp add: UnStake_def split: prod.splits)

text \<open>
  One settlement block leaves one of three sequences of gate calls: flagged by the fraud
  gate; passed by the gate and rejected by the validator; passed by both and committed.
\<close>

lemma syncNode_edgeBlk_gate:
  "\<exists>seg. filter gate_call (trace (syncNode_edgeBlk d edgeBlk st)) =
          filter gate_call (trace st) @ seg
     \<and> (seg = [IsFraudProofBlock_called edgeBlk True]
        \<or> (\<exists>err. seg = [IsFraudProofBlock_called edgeBlk False, Check_called edgeBlk (Some err)])
        \<or> (\<exists>werr. seg = [IsFraudProofBlock_called edgeBlk False, Check_called edgeBlk None,
                          WriteBlock_called edgeBlk (nodeType d) werr]))"
proof (cases "fst (IsFraudProofBlock d edgeBlk st)")
  case True
  then have "syncNode_edgeBlk d edgeBlk st = snd (IsFraudProofBlock d edgeBlk st)"
    by (simp add: syncNode_edgeBlk_def case_prod_beta)
  then show ?thesis using True by (simp add: IsFraudProofBlock_trace)
next
  case False
  let ?st1 = "snd (IsFraudProofBlock d edgeBlk st)"
  have t1: "trace ?st1 = trace st @ [IsFraudProofBlock_called edgeBlk False]"
    using False by (simp add: IsFraudProofBlock_trace)
  show ?thesis
  proof (cases "fst (Check d edgeBlk ?st1)")
    case (Some err)
    let ?st2 = "snd (Check d edgeBlk ?st1)"
    have "syncNode_edgeBlk d edgeBlk st =
        logger Warn ''failed to validate edge block received from avail'' ?st2"
      using False Some by (simp add: syncNode_edgeBlk_def case_prod_beta)
    then show ?thesis using Some by (simp add: trace_logger Check_trace t1)
  next
    case None
    let ?st2 = "snd (Check d edgeBlk ?st1)"
    let ?st3 = "if length (Transactions edgeBlk) > 0
                then logger Warn ''WE HAVE TRANSACTIONS INSIDE'' ?st2 else ?st2"
    let ?st4 = "snd (WriteBlock d edgeBlk (nodeType d) ?st3)"
    have g3: "filter gate_call (trace ?st3) =
        filter gate_call (trace st)
          @ [IsFraudProofBlock_called edgeBlk False, Check_called edgeBlk None]"
      using None by (simp add: trace_logger Check_trace t1)
    have g4: "filter gate_call (trace ?st4) =
        filter gate_call (trace st)
          @ [IsFraudProofBlock_called edgeBlk False, Check_called edgeBlk None,
             WriteBlock_called edgeBlk (nodeType d)
               (fst (WriteBlock d edgeBlk (nodeType d) ?st3))]"
      using g3 by (simp add: WriteBlock_trace)
    have "syncNode_edgeBlk d edgeBlk st =
        (if fst (WriteBlock d edgeBlk (nodeType d) ?st3) \<noteq> None
         then logger Warn ''failed to write edge block received from avail'' ?st4
         else ?st4)"
      using False None by (simp add: syncNode_edgeBlk_def Let_def case_prod_beta)
    then have "filter gate_call (trace (syncNode_edgeBlk d edgeBlk st)) =
        filter gate_call (trace ?st4)"
      by (simp add: trace_logger)
    then show ?thesis using g4 by simp
  qed
qed

lemma syncNode_edgeBlks_gate:
  "\<exists>segs. filter gate_call (trace (syncNode_edgeBlks d edgeBlks st)) =
           filter gate_call (trace st) @ concat segs
     \<and> (\<forall>seg \<in> set segs. \<exists>edgeBlk.
           seg = [IsFraudProofBlock_called edgeBlk True]
         \<or> (\<exists>err. seg = [IsFraudProofBlock_called edgeBlk False,
                          Check_called edgeBlk (Some err)])
         \<or> (\<exists>werr. seg = [IsFraudProofBlock_called edgeBlk False, Check_called edgeBlk None,
                           WriteBlock_called edgeBlk (nodeType d) werr]))"
proof (induction edgeBlks arbitrary: st)
  case Nil
  have "filter gate_call (trace st) = filter gate_call (trace st) @ concat []" by simp
  then show ?case by (intro exI [of _ "[]"]) simp
next
  case (Cons edgeBlk rest)
  obtain seg where seg:
    "filter gate_call (trace (syncNode_edgeBlk d edgeBlk st)) = filter gate_call (trace st) @ seg"
    "seg = [IsFraudProofBlock_called edgeBlk True]
       \<or> (\<exists>err. seg = [IsFraudProofBlock_called edgeBlk False, Check_called edgeBlk (Some err)])
       \<or> (\<exists>werr. seg = [IsFraudProofBlock_called edgeBlk False, Check_called edgeBlk None,
                         WriteBlock_called edgeBlk (nodeType d) werr])"
    using syncNode_edgeBlk_gate [of d edgeBlk st] by blast
  obtain segs where segs:
    "filter gate_call (trace (syncNode_edgeBlks d rest (syncNode_edgeBlk d edgeBlk st))) =
       filter gate_call (trace (syncNode_edgeBlk d edgeBlk st)) @ concat segs"
    "\<forall>seg \<in> set segs. \<exists>edgeBlk.
           seg = [IsFraudProofBlock_called edgeBlk True]
         \<or> (\<exists>err. seg = [IsFraudProofBlock_called edgeBlk False,
                          Check_called edgeBlk (Some err)])
         \<or> (\<exists>werr. seg = [IsFraudProofBlock_called edgeBlk False, Check_called edgeBlk None,
                           WriteBlock_called edgeBlk (nodeType d) werr])"
    using Cons.IH [of "syncNode_edgeBlk d edgeBlk st"] by blast
  have "filter gate_call (trace (syncNode_edgeBlks d (edgeBlk # rest) st)) =
      filter gate_call (trace st) @ concat (seg # segs)"
    using seg(1) segs(1) by simp
  moreover have "\<forall>s \<in> set (seg # segs). \<exists>edgeBlk.
           s = [IsFraudProofBlock_called edgeBlk True]
         \<or> (\<exists>err. s = [IsFraudProofBlock_called edgeBlk False,
                          Check_called edgeBlk (Some err)])
         \<or> (\<exists>werr. s = [IsFraudProofBlock_called edgeBlk False, Check_called edgeBlk None,
                           WriteBlock_called edgeBlk (nodeType d) werr])"
    using seg(2) segs(2) by auto
  ultimately show ?case by blast
qed

lemma syncNode_loop_Recv:
  "syncNode_loop d hdr callIdx (Recv blk # rest) n st =
     (if len (fst (FromAvail (codecs d) blk (availAppID d) callIdx)) = 0
         \<and> snd (FromAvail (codecs d) blk (availAppID d) callIdx) \<noteq> None
         \<and> snd (FromAvail (codecs d) blk (availAppID d) callIdx) \<noteq> Some ErrNoExtrinsicFound
      then syncNode_loop d hdr callIdx rest n
             (logger Warn ''unexpected error while extracting SL blocks from Avail block'' st)
      else if hdr = BlockNumber blk
      then (Returned (ucast (BlockNumber blk)) None,
            syncNode_edgeBlks d
              (elems (fst (FromAvail (codecs d) blk (availAppID d) callIdx))) st)
      else syncNode_loop d hdr callIdx rest (ucast (BlockNumber blk))
             (syncNode_edgeBlks d
                (elems (fst (FromAvail (codecs d) blk (availAppID d) callIdx))) st))"
  by (simp add: case_prod_beta Let_def)

text \<open>
  C1: in the trace of the syncer's main loop, whatever the stream delivers and whatever
  the fraud gate, the validator and the chain answer, the calls to the three of them are a
  sequence of segments, one for a settlement block each: the fraud gate flags the block
  and nothing else is called for it; or the gate passes it and the validator rejects it,
  and it is not committed; or the gate passes it, the validator returns no error and the
  block is committed with the node's own role as source. So a commit comes only right
  after both verdicts for the same block, and the validator is called only right after the
  gate passed the block.
\<close>

theorem syncNode_commits_only_checked_blocks:
  "\<exists>segs. filter gate_call
            (trace (snd (syncNode_loop d hdr callIdx stream availNextBlockNumber st))) =
           filter gate_call (trace st) @ concat segs
     \<and> (\<forall>seg \<in> set segs. \<exists>edgeBlk.
           seg = [IsFraudProofBlock_called edgeBlk True]
         \<or> (\<exists>err. seg = [IsFraudProofBlock_called edgeBlk False,
                          Check_called edgeBlk (Some err)])
         \<or> (\<exists>werr. seg = [IsFraudProofBlock_called edgeBlk False, Check_called edgeBlk None,
                           WriteBlock_called edgeBlk (nodeType d) werr]))"
proof (induction stream arbitrary: availNextBlockNumber st)
  case Nil
  have "filter gate_call (trace st) = filter gate_call (trace st) @ concat []" by simp
  then show ?case by (intro exI [of _ "[]"]) simp
next
  case (Cons x rest)
  note IH = Cons.IH
  let ?n = availNextBlockNumber
  show ?case
  proof (cases x)
    case CloseCh
    have "filter gate_call (trace (snd (syncNode_loop d hdr callIdx (CloseCh # rest) ?n st))) =
        filter gate_call (trace st) @ concat []"
      by (simp add: trace_logger UnStake_trace case_prod_beta)
    then show ?thesis unfolding CloseCh by (intro exI [of _ "[]"]) simp
  next
    case (Recv blk)
    let ?r = "FromAvail (codecs d) blk (availAppID d) callIdx"
    show ?thesis
    proof (cases "len (fst ?r) = 0 \<and> snd ?r \<noteq> None \<and> snd ?r \<noteq> Some ErrNoExtrinsicFound")
      case True
      let ?st' = "logger Warn ''unexpected error while extracting SL blocks from Avail block'' st"
      have eq: "syncNode_loop d hdr callIdx (Recv blk # rest) ?n st =
          syncNode_loop d hdr callIdx rest ?n ?st'"
        unfolding syncNode_loop_Recv using True by simp
      have "filter gate_call (trace ?st') = filter gate_call (trace st)"
        by (simp add: trace_logger)
      then show ?thesis
        using IH [of ?n ?st'] eq unfolding Recv by simp
    next
      case False
      let ?st1 = "syncNode_edgeBlks d (elems (fst ?r)) st"
      obtain segs1 where segs1:
        "filter gate_call (trace ?st1) = filter gate_call (trace st) @ concat segs1"
        "\<forall>seg \<in> set segs1. \<exists>edgeBlk.
             seg = [IsFraudProofBlock_called edgeBlk True]
           \<or> (\<exists>err. seg = [IsFraudProofBlock_called edgeBlk False,
                            Check_called edgeBlk (Some err)])
           \<or> (\<exists>werr. seg = [IsFraudProofBlock_called edgeBlk False, Check_called edgeBlk None,
                             WriteBlock_called edgeBlk (nodeType d) werr])"
        using syncNode_edgeBlks_gate [of d "elems (fst ?r)" st] by blast
      show ?thesis
      proof (cases "hdr = BlockNumber blk")
        case True
        have "snd (syncNode_loop d hdr callIdx (Recv blk # rest) ?n st) = ?st1"
          unfolding syncNode_loop_Recv if_not_P [OF False] using True by simp
        then show ?thesis using segs1 unfolding Recv by auto
      next
        case ne: False
        have eq: "syncNode_loop d hdr callIdx (Recv blk # rest) ?n st =
            syncNode_loop d hdr callIdx rest (ucast (BlockNumber blk)) ?st1"
          unfolding syncNode_loop_Recv if_not_P [OF False] using ne by simp
        obtain segs2 where segs2:
          "filter gate_call
             (trace (snd (syncNode_loop d hdr callIdx rest (ucast (BlockNumber blk)) ?st1))) =
           filter gate_call (trace ?st1) @ concat segs2"
          "\<forall>seg \<in> set segs2. \<exists>edgeBlk.
             seg = [IsFraudProofBlock_called edgeBlk True]
           \<or> (\<exists>err. seg = [IsFraudProofBlock_called edgeBlk False,
                            Check_called edgeBlk (Some err)])
           \<or> (\<exists>werr. seg = [IsFraudProofBlock_called edgeBlk False, Check_called edgeBlk None,
                             WriteBlock_called edgeBlk (nodeType d) werr])"
          using IH [of "ucast (BlockNumber blk)" ?st1] by blast
        have "filter gate_call
                (trace (snd (syncNode_loop d hdr callIdx (Recv blk # rest) ?n st))) =
            filter gate_call (trace st) @ concat (segs1 @ segs2)"
          using eq segs1(1) segs2(1) by simp
        moreover have "\<forall>seg \<in> set (segs1 @ segs2). \<exists>edgeBlk.
             seg = [IsFraudProofBlock_called edgeBlk True]
           \<or> (\<exists>err. seg = [IsFraudProofBlock_called edgeBlk False,
                            Check_called edgeBlk (Some err)])
           \<or> (\<exists>werr. seg = [IsFraudProofBlock_called edgeBlk False, Check_called edgeBlk None,
                             WriteBlock_called edgeBlk (nodeType d) werr])"
          using segs1(2) segs2(2) by auto
        ultimately show ?thesis unfolding Recv by blast
      qed
    qed
  qed
qed

subsection \<open>A run of the example node\<close>

lemmas call_defs =
  emit_def logger_def sleep_def SearchBlock_def GetLatestHeader_def FindCallIndex_def
  UnStake_def IsFraudProofBlock_def Check_def WriteBlock_def InProbation_def Contains_def
  AddTx_def bb_Build_def SendAndWaitForStatus_def

lemma example_node_fields:
  "nodeType example_node = Sequencer"
  "availAppID example_node = 7"
  "minerAddr example_node = [1]"
  "signKey example_node = [2]"
  "codecs example_node = example_codecs"
  "blockchain_Header example_node = (\<lambda>w. \<lparr>Number = 0, Hash = [], ParentHash = []\<rparr>)"
  "blockchain_WriteBlock example_node = (\<lambda>w blk source. (None, Suc w))"
  "availClient_SearchBlock example_node =
     (\<lambda>w offset target searchFunc.
        (search_history [foreign_block, clean_block, corrupt_block]
           example_callIdx target searchFunc, Suc w))"
  "availClient_GetLatestHeader example_node = (\<lambda>w. (Inr 12, Suc w))"
  "avail_FindCallIndex example_node = (\<lambda>w. (Inr example_callIdx, Suc w))"
  "availClient_BlockStream example_node =
     (\<lambda>w n. [Recv foreign_block, Recv clean_block, CloseCh])"
  "stakingNode_UnStake example_node = (\<lambda>w key. (Some (Err ''unstake: not staked''), Suc w))"
  "fraudResolver_IsFraudProofBlock example_node = (\<lambda>w blk. (Number (Header blk) = 4, Suc w))"
  "validator_Check example_node =
     (\<lambda>w blk. (if Number (Header blk) = 5 then Some (Err ''invalid block'') else None, Suc w))"
  "querier_InProbation example_node = (\<lambda>w addr. ((False, None), Suc w))"
  "querier_Contains example_node = (\<lambda>w addr nt. ((100 \<le> w, None), Suc w))"
  "network example_node = None"
  "time_Sleep example_node = (\<lambda>seconds w. w + seconds)"
  "staking_StakeTx example_node = (\<lambda>addr amount nt gas. Inr [9])"
  "txSigner_SignTx example_node = (\<lambda>tx key. Inr (tx @ key))"
  "txpool_AddTx example_node = (\<lambda>w tx. (None, w + 100))"
  by (simp_all add: example_node_def)

lemma example_block_numbers:
  "BlockNumber foreign_block = 10"
  "BlockNumber clean_block = 11"
  "BlockNumber corrupt_block = 12"
  by (simp_all add: foreign_block_def clean_block_def corrupt_block_def)

lemmas example_run =
  syncNode_loop_Recv FromAvail_foreign_block FromAvail_clean_block FromAvail_corrupt_block
  example_node_fields example_block_numbers len_def elems_def syncNode_edgeBlk_def call_defs
  edge_def start_def

lemma example_loop_run:
  "syncNode_loop example_node 12 example_callIdx
     [Recv foreign_block, Recv clean_block, CloseCh] 1 start =
   (Returned 11 None,
    \<lparr>world = 7,
     trace =
       [IsFraudProofBlock_called (edge 3) False, Check_called (edge 3) None,
        WriteBlock_called (edge 3) Sequencer None,
        IsFraudProofBlock_called (edge 4) True,
        IsFraudProofBlock_called (edge 5) False,
        Check_called (edge 5) (Some (Err ''invalid block'')),
        Log Warn ''failed to validate edge block received from avail'',
        UnStake_called (Some (Err ''unstake: not staked'')),
        Log Error ''failed to unstake the node'']\<rparr>)"
  by (simp add: example_run del: syncNode_loop.simps(3))

theorem syncNode_commits_only_checked_blocks_witness:
  "filter gate_call
     (trace (snd (syncNode_loop example_node 12 example_callIdx
        [Recv foreign_block, Recv clean_block, CloseCh] 1 start))) =
   concat
     [[IsFraudProofBlock_called (edge 3) False, Check_called (edge 3) None,
       WriteBlock_called (edge 3) Sequencer None],
      [IsFraudProofBlock_called (edge 4) True],
      [IsFraudProofBlock_called (edge 5) False,
       Check_called (edge 5) (Some (Err ''invalid block''))]]"
  using syncNode_commits_only_checked_blocks
          [of example_node 12 example_callIdx
              "[Recv foreign_block, Recv clean_block, CloseCh]" 1 start]
  by (simp add: example_loop_run del: syncNode_loop.simps)

subsection \<open>Syncer: shutdown\<close>



subsection \<open>Syncer: the resume cursor and the DA head\<close>

lemma FromAvail_loop_shape:
  "(\<exists>err. FromAvail_loop D appID callIdx es acc = (None, Some err))
   \<or> (\<exists>bs. bs \<noteq> [] \<and> FromAvail_loop D appID callIdx es acc = (Some bs, None))"
proof (induction es arbitrary: acc)
  case Nil
  then show ?case by simp
next
  case (Cons e es)
  show ?case
  proof (cases "extrinsic_yield D appID callIdx e")
    case None
    then show ?thesis
      using Cons [of acc] by (simp add: FromAvail_loop_Cons del: FromAvail_loop.simps)
  next
    case (Some y)
    then show ?thesis
      using Cons [of "acc @ [projr y]"]
      by (cases y) (simp_all add: FromAvail_loop_Cons del: FromAvail_loop.simps)
  qed
qed

lemma FromAvail_shape:
  "(\<exists>err. FromAvail D availBlk appID callIdx = (None, Some err))
   \<or> (\<exists>bs. bs \<noteq> [] \<and> FromAvail D availBlk appID callIdx = (Some bs, None))"
  unfolding FromAvail_def by (rule FromAvail_loop_shape)

lemma syncFunc_range_found:
  "\<exists>e \<in> set blks. Number (Header e) = target \<Longrightarrow>
   syncFunc_range availBlk target blks = (uint (BlockNumber availBlk), True, None)"
  by (induction blks) auto

lemma syncFunc_range_not_found:
  "\<not> (\<exists>e \<in> set blks. Number (Header e) = target) \<Longrightarrow>
   syncFunc_range availBlk target blks = (- 1, False, None)"
  by (induction blks) auto

lemma syncFunc_match:
  assumes "\<exists>e \<in> set (elems (fst (FromAvail (codecs d) availBlk (availAppID d) callIdx))).
             Number (Header e) = target"
  shows "syncFunc d availBlk target callIdx = (uint (BlockNumber availBlk), True, None)"
proof -
  from assms obtain bs where
    bs: "bs \<noteq> []" "FromAvail (codecs d) availBlk (availAppID d) callIdx = (Some bs, None)"
    using FromAvail_shape [of "codecs d" availBlk "availAppID d" callIdx]
    by (auto simp: elems_def)
  then show ?thesis
    using assms syncFunc_range_found [of bs target availBlk]
    by (simp add: syncFunc_def len_def elems_def)
qed

lemma syncFunc_no_match:
  assumes "\<not> (\<exists>e \<in> set (elems (fst (FromAvail (codecs d) availBlk (availAppID d) callIdx))).
             Number (Header e) = target)"
  shows "fst (snd (syncFunc d availBlk target callIdx)) = False
       \<and> fst (syncFunc d availBlk target callIdx) = - 1"
proof -
  consider (err) err where "FromAvail (codecs d) availBlk (availAppID d) callIdx = (None, Some err)"
    | (blks) bs where "bs \<noteq> []"
        "FromAvail (codecs d) availBlk (availAppID d) callIdx = (Some bs, None)"
    using FromAvail_shape [of "codecs d" availBlk "availAppID d" callIdx] by blast
  then show ?thesis
  proof cases
    case err
    then show ?thesis by (simp add: syncFunc_def len_def)
  next
    case blks
    then show ?thesis
      using assms syncFunc_range_not_found [of bs target availBlk]
      by (simp add: syncFunc_def len_def elems_def)
  qed
qed

lemma search_history_first_match:
  assumes "\<forall>b \<in> set pre. searchFunc b target callIdx = (- 1, False, None)"
    and "searchFunc availBlk target callIdx = (n, True, None)"
  shows "search_history (pre @ availBlk # post) callIdx target searchFunc = Inr availBlk"
  using assms by (induction pre) auto

lemma getNextAvailBlockNumber_search:
  assumes "Number (blockchain_Header d (world st)) \<noteq> 0"
  shows "getNextAvailBlockNumber d st =
     (case fst (availClient_SearchBlock d (world st) 0
                  (Number (blockchain_Header d (world st))) (syncFunc d)) of
        Inl err \<Rightarrow>
          (0, logger Error ''failure to sync node''
                (snd (SearchBlock d 0 (Number (blockchain_Header d (world st))) (syncFunc d) st)))
      | Inr blk \<Rightarrow>
          (ucast (BlockNumber blk),
           snd (SearchBlock d 0 (Number (blockchain_Header d (world st))) (syncFunc d) st)))"
  using assms
  by (simp add: getNextAvailBlockNumber_def SearchBlock_def Let_def case_prod_beta
           split: sum.splits)

text \<open>
  C5: with the local chain head at genesis, \<open>getNextAvailBlockNumber\<close> returns 1 and
  leaves the state, the trace included, as it was: the DA history is not queried. With the
  head at a settlement block \<open>M\<close> other than 0 it returns 0 when the DA search returns an
  error and the number of the DA block the search returns otherwise. The predicate
  \<open>syncFunc\<close> reports a match, at the DA block's number and without error, exactly when
  one of the settlement blocks \<open>FromAvail\<close> decodes from the DA block has the target
  number, and reports no match and no error when \<open>FromAvail\<close> finds none. With the
  search over a DA history as modelled from the spec, for a history that contains a DA
  block embedding block \<open>M\<close>, before which the predicate reports neither a match nor an
  error, the result is that DA block's number.
\<close>

theorem getNextAvailBlockNumber_resumes_from_head:
  "(Number (blockchain_Header d (world st)) = 0 \<longrightarrow> getNextAvailBlockNumber d st = (1, st))
   \<and> (Number (blockchain_Header d (world st)) \<noteq> 0 \<longrightarrow>
        (\<forall>err. fst (availClient_SearchBlock d (world st) 0
                      (Number (blockchain_Header d (world st))) (syncFunc d)) = Inl err
               \<longrightarrow> fst (getNextAvailBlockNumber d st) = 0)
      \<and> (\<forall>blk. fst (availClient_SearchBlock d (world st) 0
                      (Number (blockchain_Header d (world st))) (syncFunc d)) = Inr blk
               \<longrightarrow> fst (getNextAvailBlockNumber d st) = ucast (BlockNumber blk)))
   \<and> (fst (snd (syncFunc d availBlk target callIdx)) \<longleftrightarrow>
        (\<exists>e \<in> set (elems (fst (FromAvail (codecs d) availBlk (availAppID d) callIdx))).
           Number (Header e) = target))
   \<and> (fst (snd (syncFunc d availBlk target callIdx)) \<longrightarrow>
        syncFunc d availBlk target callIdx = (uint (BlockNumber availBlk), True, None))
   \<and> (FromAvail (codecs d) availBlk (availAppID d) callIdx = (None, Some ErrNoExtrinsicFound)
        \<longrightarrow> syncFunc d availBlk target callIdx = (- 1, False, None))
   \<and> (Number (blockchain_Header d (world st)) \<noteq> 0
       \<and> fst (availClient_SearchBlock d (world st) 0
                (Number (blockchain_Header d (world st))) (syncFunc d)) =
           search_history (pre @ availBlk # post) callIdx
             (Number (blockchain_Header d (world st))) (syncFunc d)
       \<and> (\<forall>b \<in> set pre.
             syncFunc d b (Number (blockchain_Header d (world st))) callIdx = (- 1, False, None))
       \<and> (\<exists>e \<in> set (elems (fst (FromAvail (codecs d) availBlk (availAppID d) callIdx))).
             Number (Header e) = Number (blockchain_Header d (world st)))
       \<longrightarrow> fst (getNextAvailBlockNumber d st) = ucast (BlockNumber availBlk))"
proof -
  let ?M = "Number (blockchain_Header d (world st))"
  let ?search = "fst (availClient_SearchBlock d (world st) 0 ?M (syncFunc d))"
  have genesis: "?M = 0 \<longrightarrow> getNextAvailBlockNumber d st = (1, st)"
    by (simp add: getNextAvailBlockNumber_def)
  have failed: "?M \<noteq> 0 \<longrightarrow> (\<forall>err. ?search = Inl err \<longrightarrow> fst (getNextAvailBlockNumber d st) = 0)"
    by (simp add: getNextAvailBlockNumber_search)
  have found: "?M \<noteq> 0 \<longrightarrow>
      (\<forall>blk. ?search = Inr blk \<longrightarrow> fst (getNextAvailBlockNumber d st) = ucast (BlockNumber blk))"
    by (simp add: getNextAvailBlockNumber_search)
  have iff: "fst (snd (syncFunc d availBlk target callIdx)) \<longleftrightarrow>
      (\<exists>e \<in> set (elems (fst (FromAvail (codecs d) availBlk (availAppID d) callIdx))).
         Number (Header e) = target)"
    using syncFunc_match [of d availBlk callIdx target]
          syncFunc_no_match [of d availBlk callIdx target]
    by (cases "\<exists>e \<in> set (elems (fst (FromAvail (codecs d) availBlk (availAppID d) callIdx))).
                 Number (Header e) = target") simp_all
  have at: "fst (snd (syncFunc d availBlk target callIdx)) \<longrightarrow>
      syncFunc d availBlk target callIdx = (uint (BlockNumber availBlk), True, None)"
    using iff syncFunc_match [of d availBlk callIdx target] by blast
  have none: "FromAvail (codecs d) availBlk (availAppID d) callIdx =
        (None, Some ErrNoExtrinsicFound)
      \<longrightarrow> syncFunc d availBlk target callIdx = (- 1, False, None)"
    by (simp add: syncFunc_def)
  have hist: "?M \<noteq> 0
       \<and> ?search = search_history (pre @ availBlk # post) callIdx ?M (syncFunc d)
       \<and> (\<forall>b \<in> set pre. syncFunc d b ?M callIdx = (- 1, False, None))
       \<and> (\<exists>e \<in> set (elems (fst (FromAvail (codecs d) availBlk (availAppID d) callIdx))).
             Number (Header e) = ?M)
       \<longrightarrow> fst (getNextAvailBlockNumber d st) = ucast (BlockNumber availBlk)"
  proof (intro impI, elim conjE)
    assume M: "?M \<noteq> 0"
      and s: "?search = search_history (pre @ availBlk # post) callIdx ?M (syncFunc d)"
      and p: "\<forall>b \<in> set pre. syncFunc d b ?M callIdx = (- 1, False, None)"
      and e: "\<exists>e \<in> set (elems (fst (FromAvail (codecs d) availBlk (availAppID d) callIdx))).
                Number (Header e) = ?M"
    have "syncFunc d availBlk ?M callIdx = (uint (BlockNumber availBlk), True, None)"
      using e by (rule syncFunc_match)
    then have "?search = Inr availBlk"
      using s p
        search_history_first_match
          [of pre "syncFunc d" ?M callIdx availBlk "uint (BlockNumber availBlk)" post]
      by simp
    then show "fst (getNextAvailBlockNumber d st) = ucast (BlockNumber availBlk)"
      using found M by blast
  qed
  from genesis failed found iff at none hist show ?thesis by blast
qed

lemma resuming_node_fields:
  "availAppID resuming_node = 7"
  "codecs resuming_node = example_codecs"
  "blockchain_Header resuming_node = (\<lambda>w. \<lparr>Number = 4, Hash = [4], ParentHash = [3]\<rparr>)"
  "availClient_SearchBlock resuming_node =
     (\<lambda>w offset target searchFunc.
        (search_history [foreign_block, clean_block, corrupt_block]
           example_callIdx target searchFunc, Suc w))"
  by (simp_all add: resuming_node_def example_node_fields)

lemma resuming_node_syncFunc:
  "syncFunc resuming_node foreign_block 4 example_callIdx = (- 1, False, None)"
  "syncFunc resuming_node clean_block 4 example_callIdx = (11, True, None)"
  by (simp_all add: syncFunc_def resuming_node_fields FromAvail_foreign_block
        FromAvail_clean_block len_def elems_def edge_def example_block_numbers)

theorem getNextAvailBlockNumber_resumes_from_head_witness:
  "getNextAvailBlockNumber example_node start = (1, start)
   \<and> Number (blockchain_Header resuming_node (world start)) = 4
   \<and> syncFunc resuming_node foreign_block 4 example_callIdx = (- 1, False, None)
   \<and> syncFunc resuming_node clean_block 4 example_callIdx = (11, True, None)
   \<and> fst (getNextAvailBlockNumber resuming_node start) = 11
   \<and> fst (availClient_SearchBlock lost_node (world start) 0
             (Number (blockchain_Header lost_node (world start))) (syncFunc lost_node)) =
       Inl (Err ''rlp: invalid block'')
   \<and> fst (getNextAvailBlockNumber lost_node start) = 0"
proof -
  have genesis: "Number (blockchain_Header example_node (world start)) = 0"
    by (simp add: example_node_fields)
  have first: "getNextAvailBlockNumber example_node start = (1, start)"
  proof -
    have "Number (blockchain_Header example_node (world start)) = 0
        \<longrightarrow> getNextAvailBlockNumber example_node start = (1, start)"
      by (rule getNextAvailBlockNumber_resumes_from_head
                [of example_node start clean_block 4 example_callIdx "[]" "[]",
                 THEN conjunct1])
    then show ?thesis using genesis by blast
  qed
  have head: "Number (blockchain_Header resuming_node (world start)) = 4"
    by (simp add: resuming_node_fields)
  have search: "fst (availClient_SearchBlock resuming_node (world start) 0
                       (Number (blockchain_Header resuming_node (world start)))
                       (syncFunc resuming_node)) =
      search_history ([foreign_block] @ clean_block # [corrupt_block]) example_callIdx
        (Number (blockchain_Header resuming_node (world start))) (syncFunc resuming_node)"
    by (simp add: resuming_node_fields)
  have before: "\<forall>b \<in> set [foreign_block].
      syncFunc resuming_node b (Number (blockchain_Header resuming_node (world start)))
        example_callIdx = (- 1, False, None)"
    by (simp add: head resuming_node_syncFunc)
  have embeds: "\<exists>e \<in> set (elems (fst (FromAvail (codecs resuming_node) clean_block
                                        (availAppID resuming_node) example_callIdx))).
      Number (Header e) = Number (blockchain_Header resuming_node (world start))"
    by (simp add: resuming_node_fields FromAvail_clean_block elems_def edge_def)
  have nz: "Number (blockchain_Header resuming_node (world start)) \<noteq> 0"
    by (simp add: head)
  have imp: "Number (blockchain_Header resuming_node (world start)) \<noteq> 0
       \<and> fst (availClient_SearchBlock resuming_node (world start) 0
                (Number (blockchain_Header resuming_node (world start)))
                (syncFunc resuming_node)) =
           search_history ([foreign_block] @ clean_block # [corrupt_block]) example_callIdx
             (Number (blockchain_Header resuming_node (world start))) (syncFunc resuming_node)
       \<and> (\<forall>b \<in> set [foreign_block].
             syncFunc resuming_node b (Number (blockchain_Header resuming_node (world start)))
               example_callIdx = (- 1, False, None))
       \<and> (\<exists>e \<in> set (elems (fst (FromAvail (codecs resuming_node) clean_block
                                      (availAppID resuming_node) example_callIdx))).
             Number (Header e) = Number (blockchain_Header resuming_node (world start)))
       \<longrightarrow> fst (getNextAvailBlockNumber resuming_node start) = ucast (BlockNumber clean_block)"
    by (rule getNextAvailBlockNumber_resumes_from_head
              [of resuming_node start clean_block 4 example_callIdx
                  "[foreign_block]" "[corrupt_block]",
               THEN conjunct2, THEN conjunct2, THEN conjunct2, THEN conjunct2, THEN conjunct2])
  have "fst (getNextAvailBlockNumber resuming_node start) = ucast (BlockNumber clean_block)"
    using imp nz search before embeds by blast
  then have last: "fst (getNextAvailBlockNumber resuming_node start) = 11"
    by (simp add: example_block_numbers)
  have lost_head: "Number (blockchain_Header lost_node (world start)) \<noteq> 0"
    by (simp add: lost_node_def)
  have lost_search: "fst (availClient_SearchBlock lost_node (world start) 0
             (Number (blockchain_Header lost_node (world start))) (syncFunc lost_node)) =
       Inl (Err ''rlp: invalid block'')"
    by (simp add: lost_node_def example_node_fields syncFunc_def FromAvail_foreign_block
          FromAvail_clean_block FromAvail_corrupt_block len_def elems_def edge_def)
  have "Number (blockchain_Header lost_node (world start)) \<noteq> 0 \<longrightarrow>
        (\<forall>err. fst (availClient_SearchBlock lost_node (world start) 0
                      (Number (blockchain_Header lost_node (world start)))
                      (syncFunc lost_node)) = Inl err
               \<longrightarrow> fst (getNextAvailBlockNumber lost_node start) = 0)
      \<and> (\<forall>blk. fst (availClient_SearchBlock lost_node (world start) 0
                      (Number (blockchain_Header lost_node (world start)))
                      (syncFunc lost_node)) = Inr blk
               \<longrightarrow> fst (getNextAvailBlockNumber lost_node start) = ucast (BlockNumber blk))"
    by (rule getNextAvailBlockNumber_resumes_from_head
              [of lost_node start clean_block 4 example_callIdx "[]" "[]",
               THEN conjunct2, THEN conjunct1])
  then have lost: "fst (getNextAvailBlockNumber lost_node start) = 0"
    using lost_head lost_search by blast
  show ?thesis
    using first head last resuming_node_syncFunc lost_search lost by simp
qed

lemma getNextAvailBlockNumber_trace:
  "\<exists>pre. trace (snd (getNextAvailBlockNumber d st)) = trace st @ pre
     \<and> (pre = []
        \<or> (\<exists>offset target blk. pre = [SearchBlock_called offset target (Inr blk)])
        \<or> (\<exists>offset target err.
              pre = [SearchBlock_called offset target (Inl err),
                     Log Error ''failure to sync node'']))"
proof (cases "Number (blockchain_Header d (world st)) = 0")
  case True
  then show ?thesis by (simp add: getNextAvailBlockNumber_def)
next
  case False
  then show ?thesis
    by (cases "fst (availClient_SearchBlock d (world st) 0
                      (Number (blockchain_Header d (world st))) (syncFunc d))")
       (simp_all add: getNextAvailBlockNumber_search SearchBlock_def emit_def logger_def
          case_prod_beta)
qed

text \<open>
  C10: when the DA client fails to fetch the latest header, \<open>syncNode\<close> logs the failure
  and returns \<open>(0, nil)\<close>: the error is not returned. Before that it has resolved the
  resume cursor, which leaves at most one DA search and its error log in the trace; after
  it nothing follows: no call index is resolved, no stream is opened and no settlement
  block reaches the fraud gate, the validator or the chain.
\<close>

theorem syncNode_swallows_header_error:
  assumes "fst (availClient_GetLatestHeader d (world (snd (getNextAvailBlockNumber d st)))) =
             Inl err"
  shows "fst (syncNode d st) = Returned 0 None
       \<and> (\<exists>pre. trace (snd (syncNode d st)) =
                  trace st @ pre @
                  [GetLatestHeader_called (Inl err),
                   Log Error ''couldn't fetch latest block hash'']
            \<and> (pre = []
               \<or> (\<exists>offset target blk. pre = [SearchBlock_called offset target (Inr blk)])
               \<or> (\<exists>offset target e.
                     pre = [SearchBlock_called offset target (Inl e),
                            Log Error ''failure to sync node''])))
       \<and> filter gate_call (trace (snd (syncNode d st))) = filter gate_call (trace st)"
proof -
  let ?st1 = "snd (getNextAvailBlockNumber d st)"
  have r: "syncNode d st =
      (Returned 0 None,
       logger Error ''couldn't fetch latest block hash'' (snd (GetLatestHeader d ?st1)))"
    using assms by (simp add: syncNode_def GetLatestHeader_def case_prod_beta)
  have t: "trace (snd (syncNode d st)) =
      trace ?st1 @ [GetLatestHeader_called (Inl err),
                    Log Error ''couldn't fetch latest block hash'']"
    using assms by (simp add: r GetLatestHeader_def emit_def logger_def case_prod_beta)
  obtain pre where pre: "trace ?st1 = trace st @ pre"
    "pre = []
       \<or> (\<exists>offset target blk. pre = [SearchBlock_called offset target (Inr blk)])
       \<or> (\<exists>offset target e.
             pre = [SearchBlock_called offset target (Inl e),
                    Log Error ''failure to sync node''])"
    using getNextAvailBlockNumber_trace [of d st] by blast
  have g: "filter gate_call pre = []"
    using pre(2) by auto
  have "filter gate_call (trace (snd (syncNode d st))) = filter gate_call (trace st)"
    using g by (simp add: t pre(1))
  moreover have "trace (snd (syncNode d st)) =
      trace st @ pre @ [GetLatestHeader_called (Inl err),
                        Log Error ''couldn't fetch latest block hash'']"
    by (simp add: t pre(1))
  ultimately show ?thesis using r pre(2) by auto
qed

theorem syncNode_swallows_header_error_witness:
  "fst (availClient_GetLatestHeader offline_node
          (world (snd (getNextAvailBlockNumber offline_node start)))) =
     Inl (Err ''connection refused'')
   \<and> syncNode offline_node start =
       (Returned 0 None,
        \<lparr>world = 1,
         trace = [GetLatestHeader_called (Inl (Err ''connection refused'')),
                  Log Error ''couldn't fetch latest block hash'']\<rparr>)"
proof -
  have h: "fst (availClient_GetLatestHeader offline_node
                  (world (snd (getNextAvailBlockNumber offline_node start)))) =
      Inl (Err ''connection refused'')"
    by (simp add: offline_node_def)
  have run: "syncNode offline_node start =
       (Returned 0 None,
        \<lparr>world = 1,
         trace = [GetLatestHeader_called (Inl (Err ''connection refused'')),
                  Log Error ''couldn't fetch latest block hash'']\<rparr>)"
    by (simp add: syncNode_def getNextAvailBlockNumber_def offline_node_def
          example_node_fields call_defs start_def)
  show ?thesis
    using syncNode_swallows_header_error [OF h] h run by simp
qed

subsection \<open>Staking: the bounded submission to the transaction pool\<close>

lemma AddTx_trace:
  "trace (snd (AddTx d tx st)) = trace st @ [AddTx_called tx (fst (AddTx d tx st))]"
  by (simp add: AddTx_def emit_def case_prod_beta)

lemma AddTx_answer: "fst (AddTx d tx st) = fst (txpool_AddTx d (world st) tx)"
  by (simp add: AddTx_def case_prod_beta)

lemma txPool_submit_step:
  "retries < 10 \<Longrightarrow>
   txPool_submit d tx retries err st =
     (case fst (AddTx d tx st) of
        None \<Rightarrow> (None, snd (AddTx d tx st))
      | Some e \<Rightarrow>
          txPool_submit d tx (retries + 1) (Some e)
            (sleep d 2
               (logger Error ''Failure to add staking tx to the txpool err: %s''
                  (snd (AddTx d tx st)))))"
  by (subst txPool_submit.simps) (simp add: case_prod_beta split: option.splits)

lemma txPool_submit_done:
  "\<not> retries < 10 \<Longrightarrow> txPool_submit d tx retries err st = (err, st)"
  by (subst txPool_submit.simps) simp

text \<open>
  The loop from any value of \<open>retries\<close>: a run of failed submissions, then either the
  bound is reached, or one successful submission ends the loop.
\<close>

lemma txPool_submit_run:
  "\<exists>errs.
     (length errs = 10 - retries
        \<and> trace (snd (txPool_submit d tx retries err st)) =
            trace st @ concat (map (failed_submission tx) errs)
        \<and> fst (txPool_submit d tx retries err st) =
            (if errs = [] then err else Some (last errs)))
   \<or> (length errs < 10 - retries
        \<and> trace (snd (txPool_submit d tx retries err st)) =
            trace st @ concat (map (failed_submission tx) errs) @ [AddTx_called tx None]
        \<and> fst (txPool_submit d tx retries err st) = None)"
proof (induction "10 - retries" arbitrary: retries err st)
  case 0
  then have "\<not> retries < 10" by simp
  then have "txPool_submit d tx retries err st = (err, st)" by (rule txPool_submit_done)
  then show ?case using 0 by (intro exI [of _ "[]"]) simp
next
  case (Suc n)
  then have lt: "retries < 10" by simp
  show ?case
  proof (cases "fst (AddTx d tx st)")
    case None
    then have "txPool_submit d tx retries err st = (None, snd (AddTx d tx st))"
      using lt by (simp add: txPool_submit_step)
    then show ?thesis
      using None lt by (intro exI [of _ "[]"]) (simp add: AddTx_trace)
  next
    case (Some e)
    let ?st' = "sleep d 2
                  (logger Error ''Failure to add staking tx to the txpool err: %s''
                     (snd (AddTx d tx st)))"
    have step: "txPool_submit d tx retries err st = txPool_submit d tx (retries + 1) (Some e) ?st'"
      using Some lt by (simp add: txPool_submit_step)
    have tr: "trace ?st' = trace st @ failed_submission tx e"
      using Some by (simp add: trace_sleep trace_logger AddTx_trace failed_submission_def)
    have n: "n = 10 - (retries + 1)" using Suc.hyps(2) by simp
    obtain errs where errs:
      "(length errs = 10 - (retries + 1)
          \<and> trace (snd (txPool_submit d tx (retries + 1) (Some e) ?st')) =
              trace ?st' @ concat (map (failed_submission tx) errs)
          \<and> fst (txPool_submit d tx (retries + 1) (Some e) ?st') =
              (if errs = [] then Some e else Some (last errs)))
       \<or> (length errs < 10 - (retries + 1)
          \<and> trace (snd (txPool_submit d tx (retries + 1) (Some e) ?st')) =
              trace ?st' @ concat (map (failed_submission tx) errs) @ [AddTx_called tx None]
          \<and> fst (txPool_submit d tx (retries + 1) (Some e) ?st') = None)"
      using Suc.hyps(1) [OF n, of "Some e" ?st'] by blast
    show ?thesis
      using errs lt unfolding step tr
      by (intro exI [of _ "e # errs"]) auto
  qed
qed

lemma txPool_submit_all_fail:
  assumes "\<forall>w t. fst (txpool_AddTx d w t) \<noteq> None"
  shows "retries < 10 \<or> err \<noteq> None \<Longrightarrow> fst (txPool_submit d tx retries err st) \<noteq> None"
proof (induction "10 - retries" arbitrary: retries err st)
  case 0
  then have "\<not> retries < 10" by simp
  then show ?case using 0 by (simp add: txPool_submit_done)
next
  case (Suc n)
  then have lt: "retries < 10" by simp
  obtain e where e: "fst (AddTx d tx st) = Some e"
    using assms by (auto simp: AddTx_answer)
  have n: "n = 10 - (retries + 1)" using Suc.hyps(2) by simp
  show ?case
    using Suc.hyps(1) [OF n, of "Some e"] e lt by (simp add: txPool_submit_step)
qed

lemma stakeParticipantThroughTxPool_submitted:
  assumes "txPool_wait d st = Some st1"
    and "staking_StakeTx d (minerAddr d) (10 * ETH d) (nodeType d) 1000000 = Inr tx0"
    and "txSigner_SignTx d tx0 (signKey d) = Inr tx"
  shows "stakeParticipantThroughTxPool d st =
     (case fst (txPool_submit d tx 0 None (sleep d 5 st1)) of
        None \<Rightarrow> txPool_poll d (snd (txPool_submit d tx 0 None (sleep d 5 st1)))
      | Some err \<Rightarrow> Some ((False, Some err), snd (txPool_submit d tx 0 None (sleep d 5 st1))))"
  using assms
  by (simp add: stakeParticipantThroughTxPool_def Let_def case_prod_beta split: option.splits)

text \<open>
  C7: once the pool path has built and signed its stake transaction, the submission loop
  makes at most 10 calls to \<open>AddTx\<close>. Each failed call is followed by the error log and
  a sleep of 2 seconds (also the tenth). If the tenth call fails too,
  \<open>stakeParticipantThroughTxPool\<close> returns \<open>false\<close> with the error of that last call;
  this is what happens when every submission fails. A call that succeeds is the last one:
  the loop stops and the function goes on to poll the participant status.
\<close>

theorem stakeParticipantThroughTxPool_bounded_retry:
  assumes "txPool_wait d st = Some st1"
    and "staking_StakeTx d (minerAddr d) (10 * ETH d) (nodeType d) 1000000 = Inr tx0"
    and "txSigner_SignTx d tx0 (signKey d) = Inr tx"
  shows "\<exists>errs.
       ((length errs = 10
          \<and> trace (snd (txPool_submit d tx 0 None (sleep d 5 st1))) =
              trace st1 @ [Slept 5] @ concat (map (failed_submission tx) errs)
          \<and> stakeParticipantThroughTxPool d st =
              Some ((False, Some (last errs)), snd (txPool_submit d tx 0 None (sleep d 5 st1))))
        \<or> (length errs < 10
          \<and> trace (snd (txPool_submit d tx 0 None (sleep d 5 st1))) =
              trace st1 @ [Slept 5] @ concat (map (failed_submission tx) errs)
                @ [AddTx_called tx None]
          \<and> stakeParticipantThroughTxPool d st =
              txPool_poll d (snd (txPool_submit d tx 0 None (sleep d 5 st1)))))
     \<and> ((\<forall>w t. fst (txpool_AddTx d w t) \<noteq> None) \<longrightarrow> length errs = 10)"
proof -
  let ?R = "txPool_submit d tx 0 None (sleep d 5 st1)"
  obtain errs where errs:
    "(length errs = 10 - 0
        \<and> trace (snd ?R) = trace (sleep d 5 st1) @ concat (map (failed_submission tx) errs)
        \<and> fst ?R = (if errs = [] then None else Some (last errs)))
     \<or> (length errs < 10 - 0
        \<and> trace (snd ?R) =
            trace (sleep d 5 st1) @ concat (map (failed_submission tx) errs)
              @ [AddTx_called tx None]
        \<and> fst ?R = None)"
    using txPool_submit_run [of 0 d tx None "sleep d 5 st1"] by blast
  have fail: "(\<forall>w t. fst (txpool_AddTx d w t) \<noteq> None) \<longrightarrow> length errs = 10"
  proof
    assume "\<forall>w t. fst (txpool_AddTx d w t) \<noteq> None"
    then have "fst ?R \<noteq> None"
      using txPool_submit_all_fail [of d 0 None tx "sleep d 5 st1"] by simp
    then show "length errs = 10" using errs by auto
  qed
  note run = stakeParticipantThroughTxPool_submitted [OF assms]
  from errs show ?thesis
  proof
    assume a: "length errs = 10 - 0
        \<and> trace (snd ?R) = trace (sleep d 5 st1) @ concat (map (failed_submission tx) errs)
        \<and> fst ?R = (if errs = [] then None else Some (last errs))"
    then have ne: "errs \<noteq> []" by auto
    have "stakeParticipantThroughTxPool d st = Some ((False, Some (last errs)), snd ?R)"
      using a ne by (simp add: run)
    then show ?thesis
      using a fail by (intro exI [of _ errs]) (simp add: trace_sleep)
  next
    assume b: "length errs < 10 - 0
        \<and> trace (snd ?R) =
            trace (sleep d 5 st1) @ concat (map (failed_submission tx) errs)
              @ [AddTx_called tx None]
        \<and> fst ?R = None"
    have "stakeParticipantThroughTxPool d st = txPool_poll d (snd ?R)"
      using b by (simp add: run)
    then show ?thesis
      using b fail by (intro exI [of _ errs]) (simp add: trace_sleep)
  qed
qed

lemma refused_node_fields:
  "nodeType refused_node = Sequencer"
  "minerAddr refused_node = [1]"
  "signKey refused_node = [2]"
  "network refused_node = None"
  "time_Sleep refused_node = (\<lambda>seconds w. w + seconds)"
  "staking_StakeTx refused_node = (\<lambda>addr amount nt gas. Inr [9])"
  "txSigner_SignTx refused_node = (\<lambda>tx key. Inr (tx @ key))"
  "txpool_AddTx refused_node = (\<lambda>w tx. (Some (Err ''txpool is full''), Suc w))"
  by (simp_all add: refused_node_def example_node_fields)

lemma replicate_ten: "replicate 10 x = [x, x, x, x, x, x, x, x, x, x]"
  by (simp add: numeral_eq_Suc)

lemma refused_node_run:
  "stakeParticipantThroughTxPool refused_node start =
     Some ((False, Some (Err ''txpool is full'')),
           \<lparr>world = 35,
            trace = Slept 5 #
              concat (replicate 10 (failed_submission [9, 2] (Err ''txpool is full'')))\<rparr>)"
  by (simp add: stakeParticipantThroughTxPool_def txPool_wait.simps txPool_submit_step
        txPool_submit_done refused_node_fields call_defs start_def failed_submission_def
        replicate_ten)

theorem stakeParticipantThroughTxPool_bounded_retry_witness:
  "txPool_wait refused_node start = Some start
   \<and> staking_StakeTx refused_node (minerAddr refused_node) (10 * ETH refused_node)
       (nodeType refused_node) 1000000 = Inr [9]
   \<and> txSigner_SignTx refused_node [9] (signKey refused_node) = Inr [9, 2]
   \<and> stakeParticipantThroughTxPool refused_node start =
       Some ((False, Some (Err ''txpool is full'')),
             \<lparr>world = 35,
              trace = Slept 5 #
                concat (replicate 10 (failed_submission [9, 2] (Err ''txpool is full'')))\<rparr>)"
proof -
  have w: "txPool_wait refused_node start = Some start"
    by (simp add: txPool_wait.simps refused_node_fields)
  have s: "staking_StakeTx refused_node (minerAddr refused_node) (10 * ETH refused_node)
       (nodeType refused_node) 1000000 = Inr [9]"
    by (simp add: refused_node_fields)
  have g: "txSigner_SignTx refused_node [9] (signKey refused_node) = Inr [9, 2]"
    by (simp add: refused_node_fields)
  show ?thesis
    using stakeParticipantThroughTxPool_bounded_retry [OF w s g] w s g refused_node_run
    by blast
qed

subsection \<open>Staking: the poll after the submission\<close>

lemma txPool_poll_step:
  "txPool_poll d st =
     (case poll_answer d st of
        (staked, Some err) \<Rightarrow>
          Some ((False, Some err),
                snd (Contains d (minerAddr d) (NodeType_of (nodeType d))
                       (logger Info
                          ''Submitted transaction, waiting for staking contract update...'' st)))
      | (True, None) \<Rightarrow> Some ((True, None), poll_round d st)
      | (False, None) \<Rightarrow> txPool_poll d (poll_round d st))"
  by (subst txPool_poll.simps)
     (simp add: poll_answer_def poll_round_def Let_def case_prod_beta split: option.splits)

lemma poll_round_trace:
  "trace (poll_round d st) =
     trace st @
     [Log Info ''Submitted transaction, waiting for staking contract update...'',
      Contains_called (NodeType_of (nodeType d)) (fst (poll_answer d st))
        (snd (poll_answer d st)),
      Slept 3]"
  by (simp add: poll_round_def poll_answer_def Contains_def emit_def logger_def sleep_def
        case_prod_beta)

lemma txPool_poll_rounds_aux:
  "\<forall>k < n. poll_answer d ((poll_round d ^^ k) st) = (False, None) \<Longrightarrow>
   txPool_poll d st = txPool_poll d ((poll_round d ^^ n) st)"
proof (induction n arbitrary: st)
  case 0
  then show ?case by simp
next
  case (Suc n)
  have first: "poll_answer d st = (False, None)"
    using Suc.prems by (elim allE [of _ 0]) simp
  have rest: "\<forall>k < n. poll_answer d ((poll_round d ^^ k) (poll_round d st)) = (False, None)"
  proof (intro allI impI)
    fix k assume "k < n"
    then have "poll_answer d ((poll_round d ^^ Suc k) st) = (False, None)"
      using Suc.prems by (elim allE [of _ "Suc k"]) simp
    then show "poll_answer d ((poll_round d ^^ k) (poll_round d st)) = (False, None)"
      by (simp add: funpow_swap1)
  qed
  have "txPool_poll d st = txPool_poll d (poll_round d st)"
    using first by (subst txPool_poll_step) simp
  also have "\<dots> = txPool_poll d ((poll_round d ^^ n) (poll_round d st))"
    using Suc.IH [OF rest] .
  finally show ?case by (simp add: funpow_swap1)
qed

text \<open>
  C8, as the claim states it, fails: the stake transaction of \<open>flaky_node\<close> is
  submitted at the first attempt, the first query of the participant status after it
  returns an error, and \<open>stakeParticipantThroughTxPool\<close> returns that error to its
  caller at once, with \<open>false\<close> and with neither a sleep nor a second query.
\<close>

theorem stakeParticipantThroughTxPool_surfaces_query_error:
  "stakeParticipantThroughTxPool flaky_node start =
     Some ((False, Some (Err ''rpc unavailable'')),
           \<lparr>world = 106,
            trace =
              [Slept 5, AddTx_called [9, 2] None,
               Log Info ''Submitted transaction, waiting for staking contract update...'',
               Contains_called (NodeType_of Sequencer) False
                 (Some (Err ''rpc unavailable''))]\<rparr>)"
  by (simp add: stakeParticipantThroughTxPool_def txPool_wait.simps txPool_submit_step
        txPool_submit_done txPool_poll.simps flaky_node_def example_node_fields call_defs
        start_def)

text \<open>
  C8, amended: after the submission the poll queries the participant status and sleeps 3
  seconds after every answer without error. While the answers are ``not staked'' it
  queries again; at the first answer ``staked'' it returns \<open>(true, nil)\<close>. At the first
  query that returns an error it returns \<open>(false, err)\<close> at once: the error is surfaced
  to the caller, with no backoff and no retry.
\<close>

theorem txPool_poll_until_staked_or_error:
  assumes "\<forall>k < n. poll_answer d ((poll_round d ^^ k) st) = (False, None)"
  shows "(poll_answer d ((poll_round d ^^ n) st) = (True, None) \<longrightarrow>
            txPool_poll d st = Some ((True, None), (poll_round d ^^ Suc n) st))
       \<and> (\<forall>staked err. poll_answer d ((poll_round d ^^ n) st) = (staked, Some err) \<longrightarrow>
            txPool_poll d st =
              Some ((False, Some err),
                    snd (Contains d (minerAddr d) (NodeType_of (nodeType d))
                           (logger Info
                              ''Submitted transaction, waiting for staking contract update...''
                              ((poll_round d ^^ n) st)))))
       \<and> (\<forall>k. trace ((poll_round d ^^ Suc k) st) =
            trace ((poll_round d ^^ k) st) @
            [Log Info ''Submitted transaction, waiting for staking contract update...'',
             Contains_called (NodeType_of (nodeType d))
               (fst (poll_answer d ((poll_round d ^^ k) st)))
               (snd (poll_answer d ((poll_round d ^^ k) st))),
             Slept 3])"
proof -
  let ?st = "(poll_round d ^^ n) st"
  have run: "txPool_poll d st = txPool_poll d ?st"
    using assms by (rule txPool_poll_rounds_aux)
  have staked: "poll_answer d ?st = (True, None) \<longrightarrow>
      txPool_poll d st = Some ((True, None), (poll_round d ^^ Suc n) st)"
    unfolding run by (subst txPool_poll_step) simp
  have failed: "\<forall>staked err. poll_answer d ?st = (staked, Some err) \<longrightarrow>
      txPool_poll d st =
        Some ((False, Some err),
              snd (Contains d (minerAddr d) (NodeType_of (nodeType d))
                     (logger Info
                        ''Submitted transaction, waiting for staking contract update...''
                        ?st)))"
    unfolding run by (subst txPool_poll_step) (simp split: bool.splits)
  have rounds: "\<forall>k. trace ((poll_round d ^^ Suc k) st) =
      trace ((poll_round d ^^ k) st) @
      [Log Info ''Submitted transaction, waiting for staking contract update...'',
       Contains_called (NodeType_of (nodeType d))
         (fst (poll_answer d ((poll_round d ^^ k) st)))
         (snd (poll_answer d ((poll_round d ^^ k) st))),
       Slept 3]"
    by (simp add: poll_round_trace)
  from staked failed rounds show ?thesis by blast
qed

theorem txPool_poll_until_staked_or_error_witness:
  "poll_answer example_node \<lparr>world = 99, trace = []\<rparr> = (False, None)
   \<and> poll_answer example_node (poll_round example_node \<lparr>world = 99, trace = []\<rparr>) = (True, None)
   \<and> txPool_poll example_node \<lparr>world = 99, trace = []\<rparr> =
       Some ((True, None),
             \<lparr>world = 107,
              trace =
                [Log Info ''Submitted transaction, waiting for staking contract update...'',
                 Contains_called (NodeType_of Sequencer) False None, Slept 3,
                 Log Info ''Submitted transaction, waiting for staking contract update...'',
                 Contains_called (NodeType_of Sequencer) True None, Slept 3]\<rparr>)"
proof -
  let ?st = "\<lparr>world = 99, trace = []\<rparr> :: nat state"
  have a0: "poll_answer example_node ?st = (False, None)"
    by (simp add: poll_answer_def example_node_fields call_defs)
  have r1: "poll_round example_node ?st =
      \<lparr>world = 103,
       trace = [Log Info ''Submitted transaction, waiting for staking contract update...'',
                Contains_called (NodeType_of Sequencer) False None, Slept 3]\<rparr>"
    by (simp add: poll_round_def example_node_fields call_defs)
  have a1: "poll_answer example_node (poll_round example_node ?st) = (True, None)"
    unfolding r1 by (simp add: poll_answer_def example_node_fields call_defs)
  have r2: "(poll_round example_node ^^ Suc 1) ?st =
      \<lparr>world = 107,
       trace = [Log Info ''Submitted transaction, waiting for staking contract update...'',
                Contains_called (NodeType_of Sequencer) False None, Slept 3,
                Log Info ''Submitted transaction, waiting for staking contract update...'',
                Contains_called (NodeType_of Sequencer) True None, Slept 3]\<rparr>"
    by (simp add: r1) (simp add: poll_round_def example_node_fields call_defs)
  have h: "\<forall>k < 1. poll_answer example_node ((poll_round example_node ^^ k) ?st) = (False, None)"
    using a0 by simp
  have "txPool_poll example_node ?st =
      Some ((True, None), (poll_round example_node ^^ Suc 1) ?st)"
    using txPool_poll_until_staked_or_error [OF h, THEN conjunct1] a1 by simp
  then show ?thesis using a0 a1 r2 by simp
qed

subsection \<open>Staking: when the loop of \<open>ensureStaked\<close> ends\<close>






















end
